theory Spec2Isabelle
  imports Main "HOL-Library.Word" "HOL-Library.Sublist"
begin

section \<open>The MySQL database-access engine (package mysql, engine.go)\<close>

text \<open>
  The engine authorizes a session, connects to the backend database, tells the client
  that the connection phase is over and then relays packets in both directions.
  Everything the engine does is a call on a collaborator (authorizer, credential provider,
  audit sink, lease service, sockets, logger). The model therefore returns, for every
  function of the source, the list of calls it made, in order, next to its result:
  the collaborators' answers are read from a record \<open>world\<close>, one field per call.
\<close>

subsection \<open>Errors\<close>

text \<open>
  Go's \<open>error\<close> values. \<open>LimitExceeded\<close> and \<open>AccessDenied\<close> are the two kinds of the
  trace package that the engine builds or tests for, \<open>Err\<close> is any other error with its
  message, and \<open>Wrap\<close> is \<open>trace.Wrap\<close>, which keeps the wrapped error's kind and message.
  A returned \<open>nil\<close> is \<open>None\<close> of \<open>error option\<close>.
\<close>

datatype error =
    Err string
  | LimitExceeded string
  | AccessDenied string
  | Wrap error

fun IsLimitExceeded :: "error \<Rightarrow> bool" where
  "IsLimitExceeded (LimitExceeded m) = True"
| "IsLimitExceeded (Wrap e) = IsLimitExceeded e"
| "IsLimitExceeded (Err m) = False"
| "IsLimitExceeded (AccessDenied m) = False"

fun IsAccessDenied :: "error \<Rightarrow> bool" where
  "IsAccessDenied (AccessDenied m) = True"
| "IsAccessDenied (Wrap e) = IsAccessDenied e"
| "IsAccessDenied (Err m) = False"
| "IsAccessDenied (LimitExceeded m) = False"

text \<open>The text of an error, as \<open>%v\<close> prints it.\<close>

fun Error :: "error \<Rightarrow> string" where
  "Error (Err m) = m"
| "Error (LimitExceeded m) = m"
| "Error (AccessDenied m) = m"
| "Error (Wrap e) = Error e"

subsection \<open>Session context\<close>

type_synonym byte = "8 word"

datatype DatabaseTLSMode =
    DatabaseTLSMode_VERIFY_FULL
  | DatabaseTLSMode_VERIFY_CA
  | DatabaseTLSMode_INSECURE

text \<open>
  The backend descriptor \<open>sessionCtx.Database\<close>: one field per getter the engine calls
  (\<open>GetTLS().Mode\<close>, \<open>GetAzure().Name\<close>). The three kind tests are separate booleans,
  tried in the order of the source's \<open>switch\<close>.
\<close>

record database =
  GetName :: string
  GetURI :: string
  IsRDS :: bool
  IsCloudSQL :: bool
  IsAzure :: bool
  GetTLS_Mode :: DatabaseTLSMode
  GetAzure_Name :: string
  GetIAMPolicy :: string

record AccessMFAParams =
  Verified :: bool
  AlwaysRequired :: bool

datatype RoleMatchers = DatabaseRoleMatchers string string string

record session =
  Database :: database
  DatabaseUser :: string
  DatabaseName :: string
  Identity_MFAVerified :: string
  Checker_CheckAccess :: "database \<Rightarrow> AccessMFAParams \<Rightarrow> RoleMatchers \<Rightarrow> error option"

subsection \<open>Leases\<close>

text \<open>
  Times are nanoseconds as unbounded integers (\<open>time.Duration\<close> counts nanoseconds);
  \<open>Service\<close> and \<open>Clock\<close> of the source's configuration are references to the engine's
  own collaborators and carry no data.
\<close>

definition Second :: int where
  "Second = 1000000000"

definition Minute :: int where
  "Minute = 60 * Second"

record AcquireSemaphoreRequest =
  SemaphoreKind :: string
  SemaphoreName :: string
  MaxLeases :: int
  Expires :: int

record LinearConfig =
  Step :: int
  Max :: int

record AcquireSemaphoreWithRetryConfig =
  Request :: AcquireSemaphoreRequest
  Retry :: LinearConfig

datatype lease = Lease nat

subsection \<open>Connections and the calls the engine makes\<close>

datatype tls_config = TLSConfig nat
datatype tls_conn = TLSConn nat
datatype conn = Conn nat

text \<open>
  The two closures the source passes to \<open>client.Connect\<close>: the default one sets the TLS
  configuration on the socket the client library opened, the Cloud SQL one closes that
  socket and puts the TLS socket dialled by the engine in its place.
\<close>

datatype clientOpt =
    SetTLSConfig tls_config
  | ReplaceConn tls_conn

datatype log_level = Debug | Warn | Error_level

datatype log_field = FErr error | FStr string | FLease lease | FSession

datatype select_case =
    ClientDone "error option"
  | ServerDone "error option"
  | CtxDone

datatype event =
    EvGetAuthPreference
  | EvCheckAccess database AccessMFAParams RoleMatchers
  | OnSessionStart "error option"
  | OnSessionEnd
  | OnQuery string
  | EvGetTLSConfig
  | EvGetRDSAuthToken
  | EvAcquireSemaphoreWithRetry int AcquireSemaphoreWithRetryConfig
  | EvCancelSemaphoreLease lease
  | EvCancelRetryCtx
  | EvGetCloudSQLPassword
  | EvGetAzureAccessToken
  | EvTLSDial string tls_config
  | EvClientConnect string string string string clientOpt
  | EvWriteOK
  | EvConnClose conn
  | EvGoReceiveFromClient
  | EvGoReceiveFromServer
  | EvLog log_level string "log_field list"
  | EvWritePacketServer "byte list"
  | EvWritePacketClient "byte list"
  | EvChanSend error
  | EvChanClose

text \<open>
  The answers of the collaborators during one session. A call that takes computed
  arguments is a function of them; reads and writes of the relay are indexed by the
  iteration of the loop that makes them. \<open>select_first\<close> is the case of the final
  \<open>select\<close> that becomes ready first, with the value received; \<open>None\<close> when none ever does.
  Library functions and constants that are not in the engine's file are fields too:
  \<open>ConvertError\<close>, \<open>IsOKNetworkError\<close>, \<open>SplitHostPort\<close>, \<open>JoinHostPort\<close>, \<open>fmt_q\<close>
  (the verb \<open>%q\<close>), \<open>ProtocolMySQL\<close>, \<open>DatabaseConnectTimeout\<close>.
\<close>

datatype unit_kind = KStatement string | KReauth string | KTerminate | KOther

record world =
  GetAuthPreference :: "error + bool"
  GetTLSConfig :: "error + tls_config"
  GetRDSAuthToken :: "error + string"
  AcquireSemaphoreWithRetry :: "int \<Rightarrow> AcquireSemaphoreWithRetryConfig \<Rightarrow> error + lease"
  CancelSemaphoreLease :: "lease \<Rightarrow> error option"
  GetCloudSQLPassword :: "error + string"
  GetAzureAccessToken :: "error + string"
  SplitHostPort :: "string \<Rightarrow> error + string \<times> string"
  JoinHostPort :: "string \<Rightarrow> string \<Rightarrow> string"
  tls_Dial :: "string \<Rightarrow> tls_config \<Rightarrow> error + tls_conn"
  client_Connect :: "string \<Rightarrow> string \<Rightarrow> string \<Rightarrow> string \<Rightarrow> clientOpt \<Rightarrow> error + conn"
  conn_Close :: "conn \<Rightarrow> error option"
  WriteOK :: "error option"
  Clock_Now :: int
  ConvertError :: "error \<Rightarrow> error"
  IsOKNetworkError :: "error \<Rightarrow> bool"
  fmt_q :: "string \<Rightarrow> string"
  ProtocolMySQL :: string
  DatabaseConnectTimeout :: int
  select_first :: "select_case option"
  client_read :: "nat \<Rightarrow> error + byte list"
  codec_decode :: "byte list \<Rightarrow> error + unit_kind"
  server_write :: "nat \<Rightarrow> byte list \<Rightarrow> error option"
  server_read :: "nat \<Rightarrow> error + byte list"
  client_write :: "nat \<Rightarrow> byte list \<Rightarrow> error option"

subsection \<open>checkAccess\<close>

definition checkAccess :: "world \<Rightarrow> session \<Rightarrow> event list \<times> error option" where
  "checkAccess w s =
     (case GetAuthPreference w of
        Inl err \<Rightarrow> ([EvGetAuthPreference], Some (Wrap err))
      | Inr requireSessionMFA \<Rightarrow>
          (let mfaParams = \<lparr>Verified = (Identity_MFAVerified s \<noteq> []),
                            AlwaysRequired = requireSessionMFA\<rparr>;
               dbRoleMatchers =
                 DatabaseRoleMatchers (ProtocolMySQL w) (DatabaseUser s) (DatabaseName s)
           in (case Checker_CheckAccess s (Database s) mfaParams dbRoleMatchers of
                 Some err \<Rightarrow>
                   ([EvGetAuthPreference,
                     EvCheckAccess (Database s) mfaParams dbRoleMatchers,
                     OnSessionStart (Some err)],
                    Some (Wrap err))
               | None \<Rightarrow>
                   ([EvGetAuthPreference,
                     EvCheckAccess (Database s) mfaParams dbRoleMatchers],
                    None))))"

subsection \<open>makeAcquireSemaphoreConfig\<close>

definition makeAcquireSemaphoreConfig ::
    "world \<Rightarrow> session \<Rightarrow> AcquireSemaphoreWithRetryConfig" where
  "makeAcquireSemaphoreConfig w s =
     \<lparr>Request =
        \<lparr>SemaphoreKind = ''gcp-mysql-token'',
         SemaphoreName = GetName (Database s) @ ''-'' @ DatabaseUser s,
         MaxLeases = 1,
         Expires = Clock_Now w + Minute\<rparr>,
      Retry = \<lparr>Step = Second, Max = Second\<rparr>\<rparr>"

subsection \<open>connect\<close>

definition nl :: string where
  "nl = [CHR 0x0A]"

definition dq :: string where
  "dq = [CHR 0x22]"

definition apostrophe :: string where
  "apostrophe = [CHR 0x27]"

text \<open>The deferred release of the lease: a failure is logged and nothing else.\<close>

definition release_lease :: "world \<Rightarrow> lease \<Rightarrow> event list" where
  "release_lease w l =
     EvCancelSemaphoreLease l #
     (case CancelSemaphoreLease w l of
        None \<Rightarrow> []
      | Some err \<Rightarrow> [EvLog Error_level ''Failed to cancel lease: %v.'' [FErr err, FLease l]])"

text \<open>
  The address of the side-channel TLS handshake of the Cloud SQL branch: the port is
  replaced when the address splits and its port is the string 3306.
\<close>

definition cloudsql_tls_uri :: "world \<Rightarrow> database \<Rightarrow> event list \<times> string" where
  "cloudsql_tls_uri w db =
     (let uri = GetURI db in
      case SplitHostPort w uri of
        Inl err \<Rightarrow> ([], uri)
      | Inr (host, port) \<Rightarrow>
          if port = ''3306''
          then ([EvLog Debug ''Overrided URI port from 3306 to 3307'' []],
                JoinHostPort w host ''3307'')
          else ([], uri))"

text \<open>
  The \<open>switch\<close> of \<open>connect\<close>. The result is the calls made, the calls deferred to the
  return of \<open>connect\<close> (in the order they will run) and either the error returned or the
  user, the password and the client option for the outgoing connection.
\<close>

definition connect_credentials ::
    "world \<Rightarrow> session \<Rightarrow> tls_config \<Rightarrow>
       event list \<times> event list \<times> (error + string \<times> string \<times> clientOpt)" where
  "connect_credentials w s tlsConfig =
     (let db = Database s; user = DatabaseUser s; opt = SetTLSConfig tlsConfig in
      if IsRDS db then
        (case GetRDSAuthToken w of
           Inl err \<Rightarrow> ([EvGetRDSAuthToken], [], Inl (Wrap err))
         | Inr password \<Rightarrow> ([EvGetRDSAuthToken], [], Inr (user, password, opt)))
      else if IsCloudSQL db then
        (let acquire = EvAcquireSemaphoreWithRetry (DatabaseConnectTimeout w)
                         (makeAcquireSemaphoreConfig w s) in
         case AcquireSemaphoreWithRetry w (DatabaseConnectTimeout w)
                (makeAcquireSemaphoreConfig w s) of
           Inl err \<Rightarrow> ([acquire], [EvCancelRetryCtx], Inl (Wrap err))
         | Inr l \<Rightarrow>
             (let deferred = release_lease w l @ [EvCancelRetryCtx] in
              case GetCloudSQLPassword w of
                Inl err \<Rightarrow> ([acquire, EvGetCloudSQLPassword], deferred, Inl (Wrap err))
              | Inr password \<Rightarrow>
                  if GetTLS_Mode db \<noteq> DatabaseTLSMode_INSECURE then
                    (case cloudsql_tls_uri w db of
                       (logs, uri) \<Rightarrow>
                         (case tls_Dial w uri tlsConfig of
                            Inl err \<Rightarrow>
                              ([acquire, EvGetCloudSQLPassword] @ logs @
                               [EvTLSDial uri tlsConfig],
                               deferred, Inl (Wrap err))
                          | Inr tlsconn \<Rightarrow>
                              ([acquire, EvGetCloudSQLPassword] @ logs @
                               [EvTLSDial uri tlsConfig],
                               deferred, Inr (user, password, ReplaceConn tlsconn))))
                  else ([acquire, EvGetCloudSQLPassword], deferred,
                        Inr (user, password, opt))))
      else if IsAzure db then
        (case GetAzureAccessToken w of
           Inl err \<Rightarrow> ([EvGetAzureAccessToken], [], Inl (Wrap err))
         | Inr password \<Rightarrow>
             ([EvGetAzureAccessToken], [],
              Inr (user @ ''@'' @ GetAzure_Name db, password, opt)))
      else ([], [], Inr (user, [], opt)))"

definition iam_message :: "world \<Rightarrow> session \<Rightarrow> error \<Rightarrow> string" where
  "iam_message w s err =
     ''Could not connect to database:'' @ nl @ nl @
     ''  '' @ Error (ConvertError w err) @ nl @ nl @
     ''Make sure that IAM auth is enabled for MySQL user '' @ fmt_q w (DatabaseUser s) @
     '' and Teleport database'' @ nl @
     ''agent'' @ apostrophe @ ''s IAM policy has '' @ dq @ ''rds-connect'' @ dq @
     '' permissions (note that IAM changes may'' @ nl @
     ''take a few minutes to propagate):'' @ nl @ nl @
     GetIAMPolicy (Database s) @ nl"

text \<open>The outgoing connection and the treatment of its failure.\<close>

definition connect_dial ::
    "world \<Rightarrow> session \<Rightarrow> string \<Rightarrow> string \<Rightarrow> clientOpt \<Rightarrow> event list \<times> (error + conn)" where
  "connect_dial w s user password opt =
     (let db = Database s in
      ([EvClientConnect (GetURI db) user password (DatabaseName s) opt],
       (case client_Connect w (GetURI db) user password (DatabaseName s) opt of
          Inl err \<Rightarrow>
            if IsAccessDenied (ConvertError w err) \<and> IsRDS db
            then Inl (AccessDenied (iam_message w s err))
            else Inl (Wrap err)
        | Inr c \<Rightarrow> Inr c)))"

definition connect :: "world \<Rightarrow> session \<Rightarrow> event list \<times> (error + conn)" where
  "connect w s =
     (case GetTLSConfig w of
        Inl err \<Rightarrow> ([EvGetTLSConfig], Inl (Wrap err))
      | Inr tlsConfig \<Rightarrow>
          (case connect_credentials w s tlsConfig of
             (tr, deferred, Inl err) \<Rightarrow> (EvGetTLSConfig # tr @ deferred, Inl err)
           | (tr, deferred, Inr (user, password, opt)) \<Rightarrow>
               (case connect_dial w s user password opt of
                  (tr', r) \<Rightarrow> (EvGetTLSConfig # tr @ tr' @ deferred, r))))"

subsection \<open>HandleConnection\<close>

text \<open>
  A call either returns (with Go's error result) or stays blocked in the final
  \<open>select\<close>; the calls made up to that point are known in both cases.
\<close>

datatype outcome = Returned "error option" | Blocked

definition WithError :: "error option \<Rightarrow> log_field list" where
  "WithError e = (case e of None \<Rightarrow> [] | Some err \<Rightarrow> [FErr err])"

definition close_serverConn :: "world \<Rightarrow> conn \<Rightarrow> event list" where
  "close_serverConn w c =
     EvConnClose c #
     (case conn_Close w c of
        None \<Rightarrow> []
      | Some err \<Rightarrow> [EvLog Error_level ''Failed to close connection to MySQL server.'' [FErr err]])"

definition select_log :: "select_case \<Rightarrow> event" where
  "select_log c =
     (case c of
        ClientDone err \<Rightarrow> EvLog Debug ''Client done.'' (WithError err)
      | ServerDone err \<Rightarrow> EvLog Debug ''Server done.'' (WithError err)
      | CtxDone \<Rightarrow> EvLog Debug ''Context canceled.'' [])"

definition HandleConnection :: "world \<Rightarrow> session \<Rightarrow> event list \<times> outcome" where
  "HandleConnection w s =
     (case checkAccess w s of
        (tr1, Some err) \<Rightarrow> (tr1, Returned (Some (Wrap err)))
      | (tr1, None) \<Rightarrow>
          (case connect w s of
             (tr2, Inl err) \<Rightarrow>
               (tr1 @ tr2,
                Returned (Some (if IsLimitExceeded err
                   then LimitExceeded ''could not connect to the database, please try again later''
                   else Wrap err)))
           | (tr2, Inr serverConn) \<Rightarrow>
               (case WriteOK w of
                  Some err \<Rightarrow>
                    (tr1 @ tr2 @ [EvWriteOK] @ close_serverConn w serverConn,
                     Returned (Some (Wrap err)))
                | None \<Rightarrow>
                    (let started = tr1 @ tr2 @
                           [EvWriteOK, OnSessionStart None,
                            EvGoReceiveFromClient, EvGoReceiveFromServer] in
                     case select_first w of
                       None \<Rightarrow> (started, Blocked)
                     | Some c \<Rightarrow>
                         (started @ [select_log c, OnSessionEnd] @
                          close_serverConn w serverConn,
                          Returned None)))))"

subsection \<open>The relay tasks\<close>

text \<open>
  Modelled from the spec: \<open>protocol.ParsePacket\<close>, the packet types with their method
  \<open>Bytes\<close>, and \<open>protocol.WritePacket\<close> (package \<open>protocol\<close> is not among the sources).
  The codec reads one protocol unit from the client and decodes it into a tagged variant
  (statement execution, re-authentication request, termination request, other); the
  decoded packet keeps the bytes of the unit as received, and \<open>Bytes\<close> returns them.
  How the kind is read off the bytes is the codec's business: the field \<open>codec_decode\<close>.
  \<open>WritePacket\<close> sends the bytes it is given.
\<close>

datatype packet =
    is_Query: Query (Bytes: "byte list") (Query_text: string)
  | is_ChangeUser: ChangeUser (Bytes: "byte list") (User: string)
  | is_Quit: Quit (Bytes: "byte list")
  | is_Generic: Generic (Bytes: "byte list")

definition ParsePacket :: "world \<Rightarrow> nat \<Rightarrow> error + packet" where
  "ParsePacket w i =
     (case client_read w i of
        Inl err \<Rightarrow> Inl err
      | Inr raw \<Rightarrow>
          (case codec_decode w raw of
             Inl err \<Rightarrow> Inl err
           | Inr (KStatement q) \<Rightarrow> Inr (Query raw q)
           | Inr (KReauth u) \<Rightarrow> Inr (ChangeUser raw u)
           | Inr KTerminate \<Rightarrow> Inr (Quit raw)
           | Inr KOther \<Rightarrow> Inr (Generic raw)))"

text \<open>
  The type switch of \<open>receiveFromClient\<close>: the calls it makes and whether the task
  returns there.
\<close>

definition packet_switch :: "packet \<Rightarrow> event list \<times> bool" where
  "packet_switch pkt =
     (case pkt of
        Query b q \<Rightarrow> ([OnQuery q], False)
      | ChangeUser b u \<Rightarrow>
          ([EvLog Warn ''Rejecting attempt to change user to %q for session %v.''
              [FStr u, FSession]], True)
      | Quit b \<Rightarrow> ([], True)
      | Generic b \<Rightarrow> ([], False))"

text \<open>
  The loop of \<open>receiveFromClient\<close> from its \<open>i\<close>-th iteration on, after the calls \<open>tr\<close>.
  It has no bound: the result is \<open>None\<close> when the loop never ends.
\<close>

partial_function (option) receiveFromClient_loop ::
    "world \<Rightarrow> nat \<Rightarrow> event list \<Rightarrow> event list option" where
  "receiveFromClient_loop w i tr =
     (case ParsePacket w i of
        Inl err \<Rightarrow>
          if IsOKNetworkError w err
          then Some (tr @ [EvLog Debug ''Client connection closed.'' []])
          else Some (tr @ [EvLog Error_level ''Failed to read client packet.'' [FErr err],
                           EvChanSend err])
      | Inr pkt \<Rightarrow>
          (case packet_switch pkt of
             (evs, stop) \<Rightarrow>
               if stop then Some (tr @ evs)
               else
                 (case server_write w i (Bytes pkt) of
                    Some err \<Rightarrow>
                      Some (tr @ evs @
                            [EvWritePacketServer (Bytes pkt),
                             EvLog Error_level ''Failed to write server packet.'' [FErr err],
                             EvChanSend err])
                  | None \<Rightarrow>
                      receiveFromClient_loop w (Suc i)
                        (tr @ evs @ [EvWritePacketServer (Bytes pkt)]))))"

declare receiveFromClient_loop.simps [code]

definition receiveFromClient :: "world \<Rightarrow> event list option" where
  "receiveFromClient w =
     map_option (\<lambda>tr. tr @ [EvLog Debug ''Stop receiving from client.'' [], EvChanClose])
       (receiveFromClient_loop w 0 [])"

partial_function (option) receiveFromServer_loop ::
    "world \<Rightarrow> nat \<Rightarrow> event list \<Rightarrow> event list option" where
  "receiveFromServer_loop w i tr =
     (case server_read w i of
        Inl err \<Rightarrow>
          if IsOKNetworkError w err
          then Some (tr @ [EvLog Debug ''Server connection closed.'' []])
          else Some (tr @ [EvLog Error_level ''Failed to read server packet.'' [FErr err],
                           EvChanSend err])
      | Inr pkt \<Rightarrow>
          (case client_write w i pkt of
             Some err \<Rightarrow>
               Some (tr @
                     [EvWritePacketClient pkt,
                      EvLog Error_level ''Failed to write client packet.'' [FErr err],
                      EvChanSend err])
           | None \<Rightarrow> receiveFromServer_loop w (Suc i) (tr @ [EvWritePacketClient pkt])))"

declare receiveFromServer_loop.simps [code]

definition receiveFromServer :: "world \<Rightarrow> event list option" where
  "receiveFromServer w =
     map_option (\<lambda>tr. tr @ [EvLog Debug ''Stop receiving from server.'' [], EvChanClose])
       (receiveFromServer_loop w 0 [])"

subsection \<open>Reading the list of calls\<close>

fun is_OnSessionStart :: "event \<Rightarrow> bool" where
  "is_OnSessionStart (OnSessionStart e) = True"
| "is_OnSessionStart ev = False"

fun is_log :: "event \<Rightarrow> bool" where
  "is_log (EvLog l m f) = True"
| "is_log ev = False"

text \<open>The calls that only \<open>connect\<close> makes.\<close>

fun is_connect_event :: "event \<Rightarrow> bool" where
  "is_connect_event EvGetTLSConfig = True"
| "is_connect_event EvGetRDSAuthToken = True"
| "is_connect_event (EvAcquireSemaphoreWithRetry t c) = True"
| "is_connect_event (EvCancelSemaphoreLease l) = True"
| "is_connect_event EvCancelRetryCtx = True"
| "is_connect_event EvGetCloudSQLPassword = True"
| "is_connect_event EvGetAzureAccessToken = True"
| "is_connect_event (EvTLSDial u c) = True"
| "is_connect_event (EvClientConnect u n p d opt) = True"
| "is_connect_event ev = False"

text \<open>The byte strings passed to \<open>WritePacket\<close> on the backend connection, in order.\<close>

fun server_writes :: "event list \<Rightarrow> byte list list" where
  "server_writes [] = []"
| "server_writes (EvWritePacketServer b # evs) = b # server_writes evs"
| "server_writes (ev # evs) = server_writes evs"

text \<open>
  The bytes of the packet decoded in the \<open>j\<close>-th iteration (empty when no packet was
  decoded there).
\<close>

definition forwarded :: "world \<Rightarrow> nat \<Rightarrow> byte list" where
  "forwarded w j = (case ParsePacket w j of Inl err \<Rightarrow> [] | Inr pkt \<Rightarrow> Bytes pkt)"

text \<open>The bytes of the \<open>j\<close>-th unit read from the client (empty when that read fails).\<close>

definition received :: "world \<Rightarrow> nat \<Rightarrow> byte list" where
  "received w j = (case client_read w j of Inl err \<Rightarrow> [] | Inr raw \<Rightarrow> raw)"

subsection \<open>Sample sessions\<close>

text \<open>
  A session against a Cloud SQL instance in which every collaborator answers well. The
  client sends a statement, a ping and a quit request; the codec reads the kind of a
  unit off its first byte.
\<close>

definition sample_decode :: "byte list \<Rightarrow> error + unit_kind" where
  "sample_decode raw =
     (case raw of
        [] \<Rightarrow> Inl (Err ''empty packet'')
      | c # rest \<Rightarrow>
          if c = 3 then Inr (KStatement ''select 1'')
          else if c = 17 then Inr (KReauth ''bob'')
          else if c = 1 then Inr KTerminate
          else Inr KOther)"

definition sample_reads :: "nat \<Rightarrow> error + byte list" where
  "sample_reads i =
     (if i = 0 then Inr [3, 115]
      else if i = Suc 0 then Inr [14]
      else if i = 2 then Inr [1]
      else Inl (Err ''EOF''))"

definition sample_world :: world where
  "sample_world =
     \<lparr>GetAuthPreference = Inr False,
      GetTLSConfig = Inr (TLSConfig 0),
      GetRDSAuthToken = Inr ''rds-token'',
      AcquireSemaphoreWithRetry = (\<lambda>t c. Inr (Lease 7)),
      CancelSemaphoreLease = (\<lambda>l. None),
      GetCloudSQLPassword = Inr ''one-time'',
      GetAzureAccessToken = Inr ''azure-token'',
      SplitHostPort =
        (\<lambda>u. if u = ''db.example.com:3306'' then Inr (''db.example.com'', ''3306'')
             else if u = ''db.example.com:3316'' then Inr (''db.example.com'', ''3316'')
             else Inl (Err ''missing port in address'')),
      JoinHostPort = (\<lambda>h p. h @ '':'' @ p),
      tls_Dial = (\<lambda>u c. Inr (TLSConn 1)),
      client_Connect = (\<lambda>u n p d opt. Inr (Conn 2)),
      conn_Close = (\<lambda>c. None),
      WriteOK = None,
      Clock_Now = 1000,
      ConvertError = (\<lambda>e. e),
      IsOKNetworkError = (\<lambda>e. e = Err ''EOF''),
      fmt_q = (\<lambda>x. dq @ x @ dq),
      ProtocolMySQL = ''mysql'',
      DatabaseConnectTimeout = 60 * Second,
      select_first = Some (ClientDone None),
      client_read = sample_reads,
      codec_decode = sample_decode,
      server_write = (\<lambda>i b. None),
      server_read = (\<lambda>i. Inl (Err ''EOF'')),
      client_write = (\<lambda>i b. None)\<rparr>"

definition sample_database :: database where
  "sample_database =
     \<lparr>GetName = ''orders'',
      GetURI = ''db.example.com:3306'',
      IsRDS = False,
      IsCloudSQL = True,
      IsAzure = False,
      GetTLS_Mode = DatabaseTLSMode_VERIFY_FULL,
      GetAzure_Name = ''my-server'',
      GetIAMPolicy = ''policy-document''\<rparr>"

definition sample_session :: session where
  "sample_session =
     \<lparr>Database = sample_database,
      DatabaseUser = ''alice'',
      DatabaseName = ''sales'',
      Identity_MFAVerified = [],
      Checker_CheckAccess = (\<lambda>db mfa m. None)\<rparr>"

text \<open>The same session when the authorizer denies it.\<close>

definition denied_session :: session where
  "denied_session =
     sample_session\<lparr>Checker_CheckAccess := (\<lambda>db mfa m. Some (AccessDenied ''access denied''))\<rparr>"

text \<open>The same session against an RDS instance.\<close>

definition rds_session :: session where
  "rds_session =
     sample_session\<lparr>Database := sample_database\<lparr>IsRDS := True, IsCloudSQL := False\<rparr>\<rparr>"

text \<open>The message of the error that \<open>HandleConnection\<close> returns for a throttled backend.\<close>

definition try_again_later :: string where
  "try_again_later = ''could not connect to the database, please try again later''"

text \<open>Worlds in which one collaborator fails.\<close>

definition no_tls_world :: world where
  "no_tls_world = sample_world\<lparr>GetTLSConfig := Inl (Err ''no certificate'')\<rparr>"

definition throttled_world :: world where
  "throttled_world =
     sample_world\<lparr>AcquireSemaphoreWithRetry := (\<lambda>t c. Inl (LimitExceeded ''too many leases''))\<rparr>"

definition broken_client_world :: world where
  "broken_client_world = sample_world\<lparr>WriteOK := Some (Err ''broken pipe'')\<rparr>"

definition failed_relay_world :: world where
  "failed_relay_world =
     sample_world\<lparr>select_first := Some (ServerDone (Some (Err ''connection reset'')))\<rparr>"

text \<open>A client that asks to change the user after its first statement.\<close>

definition reauth_reads :: "nat \<Rightarrow> error + byte list" where
  "reauth_reads i =
     (if i = 0 then Inr [3, 115]
      else if i = Suc 0 then Inr [17, 98]
      else if i = 2 then Inr [3, 116]
      else Inl (Err ''EOF''))"

definition reauth_world :: world where
  "reauth_world = sample_world\<lparr>client_read := reauth_reads\<rparr>"

definition rds_denied_world :: world where
  "rds_denied_world =
     sample_world\<lparr>client_Connect := (\<lambda>u n p d opt. Inl (AccessDenied ''Access denied for user''))\<rparr>"



definition azure_session :: session where
  "azure_session =
     sample_session\<lparr>Database := sample_database\<lparr>IsCloudSQL := False, IsAzure := True\<rparr>\<rparr>"

section \<open>Which calls each function can make\<close>

lemma release_lease_events:
  "ev \<in> set (release_lease w l) \<Longrightarrow> is_connect_event ev \<or> is_log ev"
  by (auto simp: release_lease_def split: option.splits)

lemma cloudsql_tls_uri_events:
  "cloudsql_tls_uri w db = (logs, uri) \<Longrightarrow> ev \<in> set logs \<Longrightarrow> is_log ev"
  by (auto simp: cloudsql_tls_uri_def Let_def split: sum.splits if_splits prod.splits)

lemma connect_credentials_events:
  assumes "connect_credentials w s cfg = (tr, deferred, r)"
    and "ev \<in> set tr \<or> ev \<in> set deferred"
  shows "is_connect_event ev \<or> is_log ev"
  using assms
  by (auto simp: connect_credentials_def Let_def
      dest: release_lease_events cloudsql_tls_uri_events
      split: sum.splits if_splits prod.splits)

lemma connect_dial_events:
  "ev \<in> set (fst (connect_dial w s u p opt)) \<Longrightarrow> is_connect_event ev"
  by (auto simp: connect_dial_def Let_def)

lemma connect_events:
  assumes "ev \<in> set (fst (connect w s))"
  shows "is_connect_event ev \<or> is_log ev"
proof (cases "GetTLSConfig w")
  case (Inl err)
  with assms show ?thesis by (simp add: connect_def)
next
  case (Inr cfg)
  obtain tr deferred r where c: "connect_credentials w s cfg = (tr, deferred, r)"
    by (cases "connect_credentials w s cfg") auto
  note n = connect_credentials_events [OF c]
  show ?thesis
  proof (cases r)
    case (Inl err)
    with Inr c assms have "ev = EvGetTLSConfig \<or> ev \<in> set tr \<or> ev \<in> set deferred"
      by (auto simp: connect_def)
    with n show ?thesis by auto
  next
    case (Inr upo)
    obtain u p opt where upo: "upo = (u, p, opt)" by (cases upo) auto
    obtain tr' r' where d: "connect_dial w s u p opt = (tr', r')"
      by (cases "connect_dial w s u p opt") auto
    from \<open>GetTLSConfig w = Inr cfg\<close> Inr upo c d assms
    have "ev = EvGetTLSConfig \<or> ev \<in> set tr \<or> ev \<in> set deferred \<or> ev \<in> set tr'"
      by (auto simp: connect_def)
    moreover have "ev \<in> set tr' \<Longrightarrow> is_connect_event ev"
      using connect_dial_events [of ev w s u p opt] d by simp
    ultimately show ?thesis using n by auto
  qed
qed

lemma connect_no_WriteOK: "EvWriteOK \<notin> set (fst (connect w s))"
  using connect_events [of EvWriteOK w s] by auto

lemma connect_no_OnSessionStart: "filter is_OnSessionStart (fst (connect w s)) = []"
proof -
  have "\<not> is_OnSessionStart ev" if "ev \<in> set (fst (connect w s))" for ev
    using connect_events [OF that] by (cases ev) auto
  then show ?thesis by (simp add: filter_empty_conv)
qed

lemma checkAccess_no_WriteOK: "EvWriteOK \<notin> set (fst (checkAccess w s))"
  by (simp add: checkAccess_def Let_def split: sum.split option.split)

lemma checkAccess_no_connect_event:
  "ev \<in> set (fst (checkAccess w s)) \<Longrightarrow> \<not> is_connect_event ev"
  by (auto simp: checkAccess_def Let_def split: sum.splits option.splits)

lemma checkAccess_OnSessionStart:
  "checkAccess w s = (atr, r) \<Longrightarrow>
     length (filter is_OnSessionStart atr) \<le> 1 \<and>
     (r = None \<longrightarrow> filter is_OnSessionStart atr = [])"
  by (auto simp: checkAccess_def Let_def split: sum.splits option.splits)

lemma close_serverConn_no_OnSessionStart:
  "filter is_OnSessionStart (close_serverConn w c) = []"
  by (simp add: close_serverConn_def split: option.split)

lemma select_log_no_OnSessionStart: "\<not> is_OnSessionStart (select_log c)"
  by (simp add: select_log_def split: select_case.split)

lemma HandleConnection_unfold:
  assumes "checkAccess w s = (atr, None)" and "connect w s = (ctr, Inr c)"
  shows "HandleConnection w s =
           (case WriteOK w of
              Some err \<Rightarrow>
                (atr @ ctr @ [EvWriteOK] @ close_serverConn w c, Returned (Some (Wrap err)))
            | None \<Rightarrow>
                (case select_first w of
                   None \<Rightarrow>
                     (atr @ ctr @ [EvWriteOK, OnSessionStart None,
                                   EvGoReceiveFromClient, EvGoReceiveFromServer], Blocked)
                 | Some sel \<Rightarrow>
                     (atr @ ctr @ [EvWriteOK, OnSessionStart None,
                                   EvGoReceiveFromClient, EvGoReceiveFromServer,
                                   select_log sel, OnSessionEnd] @ close_serverConn w c,
                      Returned None)))"
  using assms by (simp add: HandleConnection_def Let_def split: option.split)

section \<open>The ready reply\<close>

text \<open>
  C1. Whenever \<open>HandleConnection\<close> writes the OK reply to the client, the authorization
  check has passed and \<open>connect\<close> has returned a connection without error, and all of
  \<open>connect\<close>'s calls come before the reply in the list of calls: the reply is never
  written before the backend connection succeeded.
\<close>

theorem ready_only_after_connect:
  assumes "HandleConnection w s = (tr, out)" and "EvWriteOK \<in> set tr"
  shows "\<exists>atr ctr c rest.
           checkAccess w s = (atr, None) \<and> connect w s = (ctr, Inr c) \<and>
           tr = atr @ ctr @ EvWriteOK # rest \<and> EvWriteOK \<notin> set (atr @ ctr)"
proof -
  obtain atr ar where a: "checkAccess w s = (atr, ar)" by (cases "checkAccess w s") auto
  obtain ctr cr where c: "connect w s = (ctr, cr)" by (cases "connect w s") auto
  from checkAccess_no_WriteOK [of w s] a have na: "EvWriteOK \<notin> set atr" by simp
  from connect_no_WriteOK [of w s] c have nc: "EvWriteOK \<notin> set ctr" by simp
  show ?thesis
  proof (cases ar)
    case (Some err)
    with assms a na show ?thesis by (simp add: HandleConnection_def)
  next
    case None
    show ?thesis
    proof (cases cr)
      case (Inl err)
      with assms a c None na nc show ?thesis by (auto simp: HandleConnection_def)
    next
      case (Inr sc)
      with assms a c None na nc show ?thesis
        by (auto simp: HandleConnection_unfold split: option.splits)
    qed
  qed
qed

theorem ready_only_after_connect_witness:
  "EvWriteOK \<in> set (fst (HandleConnection sample_world sample_session)) \<and>
   (\<exists>atr ctr c rest.
      checkAccess sample_world sample_session = (atr, None) \<and>
      connect sample_world sample_session = (ctr, Inr c) \<and>
      fst (HandleConnection sample_world sample_session) = atr @ ctr @ EvWriteOK # rest \<and>
      EvWriteOK \<notin> set (atr @ ctr))"
proof -
  have h: "EvWriteOK \<in> set (fst (HandleConnection sample_world sample_session))"
    by code_simp
  from ready_only_after_connect [OF surjective_pairing h] h show ?thesis by blast
qed

section \<open>Session start, denial and throttling\<close>

lemma checkAccess_events:
  "ev \<in> set (fst (checkAccess w s)) \<Longrightarrow>
     ev = EvGetAuthPreference \<or> is_OnSessionStart ev \<or> (\<exists>d m r. ev = EvCheckAccess d m r)"
  by (auto simp: checkAccess_def Let_def split: sum.splits option.splits)

lemma checkAccess_denied:
  assumes "GetAuthPreference w = Inr requireMFA"
    and "Checker_CheckAccess s (Database s)
           \<lparr>Verified = (Identity_MFAVerified s \<noteq> []), AlwaysRequired = requireMFA\<rparr>
           (DatabaseRoleMatchers (ProtocolMySQL w) (DatabaseUser s) (DatabaseName s)) = Some err"
  shows "checkAccess w s =
           ([EvGetAuthPreference,
             EvCheckAccess (Database s)
               \<lparr>Verified = (Identity_MFAVerified s \<noteq> []), AlwaysRequired = requireMFA\<rparr>
               (DatabaseRoleMatchers (ProtocolMySQL w) (DatabaseUser s) (DatabaseName s)),
             OnSessionStart (Some err)],
            Some (Wrap err))"
  using assms by (simp add: checkAccess_def Let_def)

lemma HandleConnection_OnSessionStart_count:
  "length (filter is_OnSessionStart (fst (HandleConnection w s))) \<le> 1"
proof -
  obtain atr ar where a: "checkAccess w s = (atr, ar)" by (cases "checkAccess w s") auto
  obtain ctr cr where c: "connect w s = (ctr, cr)" by (cases "connect w s") auto
  note ca = checkAccess_OnSessionStart [OF a]
  from connect_no_OnSessionStart [of w s] c have nc: "filter is_OnSessionStart ctr = []"
    by simp
  show ?thesis
  proof (cases ar)
    case (Some err)
    with a ca show ?thesis by (simp add: HandleConnection_def)
  next
    case None
    show ?thesis
    proof (cases cr)
      case (Inl err)
      with a c None ca nc show ?thesis by (simp add: HandleConnection_def)
    next
      case (Inr sc)
      with a c None ca nc show ?thesis
        by (simp add: HandleConnection_unfold close_serverConn_no_OnSessionStart
            select_log_no_OnSessionStart split: option.split)
    qed
  qed
qed

lemma checkAccess_passed:
  assumes "GetAuthPreference w = Inr requireMFA"
    and "Checker_CheckAccess s (Database s)
           \<lparr>Verified = (Identity_MFAVerified s \<noteq> []), AlwaysRequired = requireMFA\<rparr>
           (DatabaseRoleMatchers (ProtocolMySQL w) (DatabaseUser s) (DatabaseName s)) = None"
  shows "checkAccess w s =
           ([EvGetAuthPreference,
             EvCheckAccess (Database s)
               \<lparr>Verified = (Identity_MFAVerified s \<noteq> []), AlwaysRequired = requireMFA\<rparr>
               (DatabaseRoleMatchers (ProtocolMySQL w) (DatabaseUser s) (DatabaseName s))],
            None)"
  using assms by (simp add: checkAccess_def Let_def)

lemma HandleConnection_OnSessionStart_passed:
  assumes "checkAccess w s = (atr, None)"
  shows "filter is_OnSessionStart (fst (HandleConnection w s)) =
           (case snd (connect w s) of
              Inl err \<Rightarrow> []
            | Inr c \<Rightarrow> (case WriteOK w of Some err \<Rightarrow> [] | None \<Rightarrow> [OnSessionStart None]))"
proof -
  obtain ctr cr where c: "connect w s = (ctr, cr)" by (cases "connect w s") auto
  from checkAccess_OnSessionStart [OF assms] have na: "filter is_OnSessionStart atr = []"
    by simp
  from connect_no_OnSessionStart [of w s] c have nc: "filter is_OnSessionStart ctr = []"
    by simp
  show ?thesis
  proof (cases cr)
    case (Inl err)
    with assms c na nc show ?thesis by (simp add: HandleConnection_def)
  next
    case (Inr sc)
    with assms c na nc show ?thesis
      by (simp add: HandleConnection_unfold close_serverConn_no_OnSessionStart
          select_log_no_OnSessionStart split: option.split)
  qed
qed

text \<open>
  C2 (as amended). \<open>HandleConnection\<close> calls \<open>OnSessionStart\<close> exactly once in a session,
  with the denial error when the authorization check denies access and with nil when the
  OK reply was written, except that it does not call it at all when \<open>GetAuthPreference\<close>
  fails, when \<open>connect\<close> fails or when writing the OK reply fails. When the authorization
  check denies access, \<open>HandleConnection\<close> returns an error and none of \<open>connect\<close>'s calls
  is made.
\<close>

theorem session_start_exactly_once_unless_failed:
  "filter is_OnSessionStart (fst (HandleConnection w s)) =
     (case GetAuthPreference w of
        Inl err \<Rightarrow> []
      | Inr requireMFA \<Rightarrow>
          (case Checker_CheckAccess s (Database s)
                  \<lparr>Verified = (Identity_MFAVerified s \<noteq> []), AlwaysRequired = requireMFA\<rparr>
                  (DatabaseRoleMatchers (ProtocolMySQL w) (DatabaseUser s) (DatabaseName s)) of
             Some err \<Rightarrow> [OnSessionStart (Some err)]
           | None \<Rightarrow>
               (case snd (connect w s) of
                  Inl err \<Rightarrow> []
                | Inr c \<Rightarrow>
                    (case WriteOK w of
                       Some err \<Rightarrow> []
                     | None \<Rightarrow> [OnSessionStart None])))) \<and>
   (\<forall>requireMFA err.
      GetAuthPreference w = Inr requireMFA \<and>
      Checker_CheckAccess s (Database s)
        \<lparr>Verified = (Identity_MFAVerified s \<noteq> []), AlwaysRequired = requireMFA\<rparr>
        (DatabaseRoleMatchers (ProtocolMySQL w) (DatabaseUser s) (DatabaseName s)) = Some err
      \<longrightarrow> filter is_OnSessionStart (fst (HandleConnection w s)) = [OnSessionStart (Some err)] \<and>
          snd (HandleConnection w s) = Returned (Some (Wrap (Wrap err))) \<and>
          filter is_connect_event (fst (HandleConnection w s)) = [])"
proof (intro conjI allI impI)
  show "filter is_OnSessionStart (fst (HandleConnection w s)) =
     (case GetAuthPreference w of
        Inl err \<Rightarrow> []
      | Inr requireMFA \<Rightarrow>
          (case Checker_CheckAccess s (Database s)
                  \<lparr>Verified = (Identity_MFAVerified s \<noteq> []), AlwaysRequired = requireMFA\<rparr>
                  (DatabaseRoleMatchers (ProtocolMySQL w) (DatabaseUser s) (DatabaseName s)) of
             Some err \<Rightarrow> [OnSessionStart (Some err)]
           | None \<Rightarrow>
               (case snd (connect w s) of
                  Inl err \<Rightarrow> []
                | Inr c \<Rightarrow>
                    (case WriteOK w of
                       Some err \<Rightarrow> []
                     | None \<Rightarrow> [OnSessionStart None]))))"
  proof (cases "GetAuthPreference w")
    case (Inl err)
    then show ?thesis by (simp add: HandleConnection_def checkAccess_def)
  next
    case (Inr requireMFA)
    show ?thesis
    proof (cases "Checker_CheckAccess s (Database s)
                  \<lparr>Verified = (Identity_MFAVerified s \<noteq> []), AlwaysRequired = requireMFA\<rparr>
                  (DatabaseRoleMatchers (ProtocolMySQL w) (DatabaseUser s) (DatabaseName s))")
      case None
      note p = checkAccess_passed [OF Inr None]
      from HandleConnection_OnSessionStart_passed [OF p] Inr None show ?thesis by simp
    next
      case (Some err)
      note d = checkAccess_denied [OF Inr Some]
      from Inr Some show ?thesis by (simp add: HandleConnection_def d)
    qed
  qed
next
  fix requireMFA err
  assume h: "GetAuthPreference w = Inr requireMFA \<and>
      Checker_CheckAccess s (Database s)
        \<lparr>Verified = (Identity_MFAVerified s \<noteq> []), AlwaysRequired = requireMFA\<rparr>
        (DatabaseRoleMatchers (ProtocolMySQL w) (DatabaseUser s) (DatabaseName s)) = Some err"
  note d = checkAccess_denied [OF conjunct1 [OF h] conjunct2 [OF h]]
  show "filter is_OnSessionStart (fst (HandleConnection w s)) = [OnSessionStart (Some err)]"
    by (simp add: HandleConnection_def d)
  show "snd (HandleConnection w s) = Returned (Some (Wrap (Wrap err)))"
    by (simp add: HandleConnection_def d)
  show "filter is_connect_event (fst (HandleConnection w s)) = []"
    by (simp add: HandleConnection_def d)
qed

theorem session_start_exactly_once_unless_failed_witness:
  "GetAuthPreference sample_world = Inr False \<and>
   Checker_CheckAccess denied_session (Database denied_session)
     \<lparr>Verified = (Identity_MFAVerified denied_session \<noteq> []), AlwaysRequired = False\<rparr>
     (DatabaseRoleMatchers (ProtocolMySQL sample_world) (DatabaseUser denied_session)
        (DatabaseName denied_session)) = Some (AccessDenied ''access denied'') \<and>
   filter is_OnSessionStart (fst (HandleConnection sample_world denied_session)) =
     [OnSessionStart (Some (AccessDenied ''access denied''))] \<and>
   snd (HandleConnection sample_world denied_session) =
     Returned (Some (Wrap (Wrap (AccessDenied ''access denied'')))) \<and>
   filter is_connect_event (fst (HandleConnection sample_world denied_session)) = [] \<and>
   filter is_OnSessionStart (fst (HandleConnection sample_world sample_session)) =
     [OnSessionStart None] \<and>
   filter is_OnSessionStart (fst (HandleConnection broken_client_world sample_session)) = []"
proof -
  have h: "GetAuthPreference sample_world = Inr False \<and>
   Checker_CheckAccess denied_session (Database denied_session)
     \<lparr>Verified = (Identity_MFAVerified denied_session \<noteq> []), AlwaysRequired = False\<rparr>
     (DatabaseRoleMatchers (ProtocolMySQL sample_world) (DatabaseUser denied_session)
        (DatabaseName denied_session)) = Some (AccessDenied ''access denied'')"
    by (simp add: sample_world_def denied_session_def sample_session_def)
  have g: "GetAuthPreference sample_world = Inr False"
    "GetAuthPreference broken_client_world = Inr False"
    "WriteOK sample_world = None"
    "WriteOK broken_client_world = Some (Err ''broken pipe'')"
    by (simp_all add: sample_world_def broken_client_world_def)
  have k: "Checker_CheckAccess sample_session (Database sample_session)
     \<lparr>Verified = (Identity_MFAVerified sample_session \<noteq> []), AlwaysRequired = False\<rparr>
     (DatabaseRoleMatchers (ProtocolMySQL sample_world) (DatabaseUser sample_session)
        (DatabaseName sample_session)) = None"
    "Checker_CheckAccess sample_session (Database sample_session)
     \<lparr>Verified = (Identity_MFAVerified sample_session \<noteq> []), AlwaysRequired = False\<rparr>
     (DatabaseRoleMatchers (ProtocolMySQL broken_client_world) (DatabaseUser sample_session)
        (DatabaseName sample_session)) = None"
    by (simp_all add: sample_session_def)
  have c: "snd (connect sample_world sample_session) = Inr (Conn 2)"
    "snd (connect broken_client_world sample_session) = Inr (Conn 2)"
    by code_simp+
  from session_start_exactly_once_unless_failed [of sample_world denied_session] h
  have a: "filter is_OnSessionStart (fst (HandleConnection sample_world denied_session)) =
     [OnSessionStart (Some (AccessDenied ''access denied''))] \<and>
   snd (HandleConnection sample_world denied_session) =
     Returned (Some (Wrap (Wrap (AccessDenied ''access denied'')))) \<and>
   filter is_connect_event (fst (HandleConnection sample_world denied_session)) = []"
    by blast
  from session_start_exactly_once_unless_failed [of sample_world sample_session]
  have b: "filter is_OnSessionStart (fst (HandleConnection sample_world sample_session)) =
     [OnSessionStart None]"
    by (simp add: g k c)
  from session_start_exactly_once_unless_failed [of broken_client_world sample_session]
  have d: "filter is_OnSessionStart (fst (HandleConnection broken_client_world sample_session)) = []"
    by (simp add: g k c)
  from h a b d show ?thesis by blast
qed

text \<open>
  C2 as stated asks for exactly one \<open>OnSessionStart\<close> in every session. A session whose
  TLS configuration cannot be obtained passes authorization, fails in \<open>connect\<close> and ends
  without any \<open>OnSessionStart\<close>.
\<close>

theorem session_start_not_always_counterexample:
  "length (filter is_OnSessionStart (fst (HandleConnection no_tls_world sample_session))) = 0"
  by code_simp

text \<open>
  C5. When the authorization check passes and \<open>connect\<close> fails with an error classified
  as limit-exceeded, \<open>HandleConnection\<close> returns the limit-exceeded error with the fixed
  message "could not connect to the database, please try again later". Every other failure
  of \<open>connect\<close> is returned wrapped, is not classified as limit-exceeded and differs from
  that error.
\<close>

theorem limit_exceeded_is_distinct:
  assumes "checkAccess w s = (atr, None)" and "connect w s = (ctr, Inl err)"
  shows "(IsLimitExceeded err \<longrightarrow>
            snd (HandleConnection w s) = Returned (Some (LimitExceeded try_again_later))) \<and>
         (\<not> IsLimitExceeded err \<longrightarrow>
            snd (HandleConnection w s) = Returned (Some (Wrap err)) \<and>
            \<not> IsLimitExceeded (Wrap err) \<and> Wrap err \<noteq> LimitExceeded try_again_later)"
  using assms by (simp add: HandleConnection_def try_again_later_def)

theorem limit_exceeded_is_distinct_witness:
  "checkAccess throttled_world sample_session = (fst (checkAccess throttled_world sample_session), None) \<and>
   connect throttled_world sample_session =
     (fst (connect throttled_world sample_session), Inl (Wrap (LimitExceeded ''too many leases''))) \<and>
   IsLimitExceeded (Wrap (LimitExceeded ''too many leases'')) \<and>
   snd (HandleConnection throttled_world sample_session) =
     Returned (Some (LimitExceeded try_again_later)) \<and>
   checkAccess no_tls_world sample_session = (fst (checkAccess no_tls_world sample_session), None) \<and>
   connect no_tls_world sample_session =
     (fst (connect no_tls_world sample_session), Inl (Wrap (Err ''no certificate''))) \<and>
   \<not> IsLimitExceeded (Wrap (Err ''no certificate'')) \<and>
   snd (HandleConnection no_tls_world sample_session) =
     Returned (Some (Wrap (Wrap (Err ''no certificate''))))"
proof -
  have a: "checkAccess throttled_world sample_session =
             (fst (checkAccess throttled_world sample_session), None)"
    by code_simp
  have c: "connect throttled_world sample_session =
     (fst (connect throttled_world sample_session), Inl (Wrap (LimitExceeded ''too many leases'')))"
    by code_simp
  have a': "checkAccess no_tls_world sample_session =
             (fst (checkAccess no_tls_world sample_session), None)"
    by code_simp
  have c': "connect no_tls_world sample_session =
     (fst (connect no_tls_world sample_session), Inl (Wrap (Err ''no certificate'')))"
    by code_simp
  from limit_exceeded_is_distinct [OF a c] limit_exceeded_is_distinct [OF a' c'] a c a' c'
  show ?thesis by simp
qed

section \<open>The end of the session\<close>

lemma connect_no_relay_event:
  "ev \<in> set (fst (connect w s)) \<Longrightarrow>
     ev \<noteq> OnSessionEnd \<and> ev \<noteq> EvGoReceiveFromClient \<and> ev \<noteq> EvGoReceiveFromServer"
  using connect_events [of ev w s] by auto

lemma checkAccess_no_relay_event:
  "ev \<in> set (fst (checkAccess w s)) \<Longrightarrow>
     ev \<noteq> OnSessionEnd \<and> ev \<noteq> EvGoReceiveFromClient \<and> ev \<noteq> EvGoReceiveFromServer"
  using checkAccess_events [of ev w s] by auto

lemma close_serverConn_no_relay_event:
  "ev \<in> set (close_serverConn w c) \<Longrightarrow>
     ev \<noteq> OnSessionEnd \<and> ev \<noteq> EvGoReceiveFromClient \<and> ev \<noteq> EvGoReceiveFromServer"
  by (auto simp: close_serverConn_def split: option.splits)

text \<open>
  C7. Once the authorization check has passed and \<open>connect\<close> has returned a connection:
  if the OK reply is written and any case \<open>sel\<close> of the final \<open>select\<close> becomes ready
  (the client task's channel, the server task's channel, each with or without an error, or
  the cancelled context), \<open>HandleConnection\<close> logs that case, calls \<open>OnSessionEnd\<close>,
  closes the backend connection and returns nil, so an error received from a relay task
  appears in the log call only; and whenever \<open>HandleConnection\<close> returns at all, its
  last calls are the closing of the backend connection.
\<close>

theorem relay_end_returns_nil_and_closes:
  assumes "checkAccess w s = (atr, None)" and "connect w s = (ctr, Inr c)"
  shows "(\<forall>sel. WriteOK w = None \<and> select_first w = Some sel \<longrightarrow>
            HandleConnection w s =
              (atr @ ctr @
               [EvWriteOK, OnSessionStart None, EvGoReceiveFromClient, EvGoReceiveFromServer,
                select_log sel, OnSessionEnd] @ close_serverConn w c,
               Returned None)) \<and>
         (\<forall>r. snd (HandleConnection w s) = Returned r \<longrightarrow>
            (\<exists>before. fst (HandleConnection w s) = before @ close_serverConn w c) \<and>
            EvConnClose c \<in> set (fst (HandleConnection w s))) \<and>
         (EvGoReceiveFromClient \<in> set (fst (HandleConnection w s)) \<longrightarrow>
            snd (HandleConnection w s) = Returned None \<or> snd (HandleConnection w s) = Blocked)"
proof (intro conjI allI impI)
  fix sel
  assume "WriteOK w = None \<and> select_first w = Some sel"
  then show "HandleConnection w s =
              (atr @ ctr @
               [EvWriteOK, OnSessionStart None, EvGoReceiveFromClient, EvGoReceiveFromServer,
                select_log sel, OnSessionEnd] @ close_serverConn w c,
               Returned None)"
    by (simp add: HandleConnection_unfold [OF assms])
next
  fix r
  assume r: "snd (HandleConnection w s) = Returned r"
  show "\<exists>before. fst (HandleConnection w s) = before @ close_serverConn w c"
  proof (cases "WriteOK w")
    case (Some err)
    then have "fst (HandleConnection w s) = (atr @ ctr @ [EvWriteOK]) @ close_serverConn w c"
      by (simp add: HandleConnection_unfold [OF assms])
    then show ?thesis by blast
  next
    case None
    with r obtain sel where sel: "select_first w = Some sel"
      by (cases "select_first w") (auto simp: HandleConnection_unfold [OF assms])
    with None have "fst (HandleConnection w s) =
        (atr @ ctr @ [EvWriteOK, OnSessionStart None, EvGoReceiveFromClient,
                      EvGoReceiveFromServer, select_log sel, OnSessionEnd]) @
        close_serverConn w c"
      by (simp add: HandleConnection_unfold [OF assms])
    then show ?thesis by blast
  qed
  then show "EvConnClose c \<in> set (fst (HandleConnection w s))"
    by (auto simp: close_serverConn_def)
next
  assume g: "EvGoReceiveFromClient \<in> set (fst (HandleConnection w s))"
  from checkAccess_no_relay_event [of EvGoReceiveFromClient w s] assms
  have na: "EvGoReceiveFromClient \<notin> set atr" by auto
  from connect_no_relay_event [of EvGoReceiveFromClient w s] assms
  have nc: "EvGoReceiveFromClient \<notin> set ctr" by auto
  from close_serverConn_no_relay_event [of EvGoReceiveFromClient w c]
  have nd: "EvGoReceiveFromClient \<notin> set (close_serverConn w c)" by auto
  show "snd (HandleConnection w s) = Returned None \<or> snd (HandleConnection w s) = Blocked"
    using g na nc nd
    by (auto simp: HandleConnection_unfold [OF assms] split: option.splits)
qed

theorem relay_end_returns_nil_and_closes_witness:
  "checkAccess failed_relay_world sample_session =
     (fst (checkAccess failed_relay_world sample_session), None) \<and>
   connect failed_relay_world sample_session =
     (fst (connect failed_relay_world sample_session), Inr (Conn 2)) \<and>
   WriteOK failed_relay_world = None \<and>
   select_first failed_relay_world = Some (ServerDone (Some (Err ''connection reset''))) \<and>
   HandleConnection failed_relay_world sample_session =
     (fst (checkAccess failed_relay_world sample_session) @
      fst (connect failed_relay_world sample_session) @
      [EvWriteOK, OnSessionStart None, EvGoReceiveFromClient, EvGoReceiveFromServer,
       EvLog Debug ''Server done.'' [FErr (Err ''connection reset'')], OnSessionEnd,
       EvConnClose (Conn 2)],
      Returned None) \<and>
   EvGoReceiveFromClient \<in> set (fst (HandleConnection failed_relay_world sample_session)) \<and>
   EvConnClose (Conn 2) \<in> set (fst (HandleConnection failed_relay_world sample_session))"
proof -
  have a: "checkAccess failed_relay_world sample_session =
     (fst (checkAccess failed_relay_world sample_session), None)"
    by code_simp
  have c: "connect failed_relay_world sample_session =
     (fst (connect failed_relay_world sample_session), Inr (Conn 2))"
    by code_simp
  have o: "WriteOK failed_relay_world = None"
    by (simp add: failed_relay_world_def sample_world_def)
  have f: "select_first failed_relay_world = Some (ServerDone (Some (Err ''connection reset'')))"
    by (simp add: failed_relay_world_def sample_world_def)
  have l: "select_log (ServerDone (Some (Err ''connection reset''))) =
             EvLog Debug ''Server done.'' [FErr (Err ''connection reset'')]"
    by (simp add: select_log_def WithError_def)
  have d: "close_serverConn failed_relay_world (Conn 2) = [EvConnClose (Conn 2)]"
    by (simp add: close_serverConn_def failed_relay_world_def sample_world_def)
  have g: "EvGoReceiveFromClient \<in> set (fst (HandleConnection failed_relay_world sample_session))"
    by code_simp
  from relay_end_returns_nil_and_closes [OF a c] o f
  have "HandleConnection failed_relay_world sample_session =
     (fst (checkAccess failed_relay_world sample_session) @
      fst (connect failed_relay_world sample_session) @
      [EvWriteOK, OnSessionStart None, EvGoReceiveFromClient, EvGoReceiveFromServer,
       select_log (ServerDone (Some (Err ''connection reset''))), OnSessionEnd] @
      close_serverConn failed_relay_world (Conn 2),
      Returned None)"
    by blast
  with a c o f l d g show ?thesis by simp
qed

text \<open>
  C9. When the authorization check has passed, \<open>connect\<close> has returned a connection and
  writing the OK reply fails, \<open>HandleConnection\<close> returns that error wrapped; its calls
  are those of the check and of \<open>connect\<close>, the write and the closing of the backend
  connection: no \<open>OnSessionStart\<close>, no \<open>OnSessionEnd\<close>, and neither relay task is started.
\<close>

theorem failed_ready_reply:
  assumes "checkAccess w s = (atr, None)" and "connect w s = (ctr, Inr c)"
    and "WriteOK w = Some err"
  shows "HandleConnection w s =
           (atr @ ctr @ [EvWriteOK] @ close_serverConn w c, Returned (Some (Wrap err))) \<and>
         filter is_OnSessionStart (fst (HandleConnection w s)) = [] \<and>
         OnSessionEnd \<notin> set (fst (HandleConnection w s)) \<and>
         EvGoReceiveFromClient \<notin> set (fst (HandleConnection w s)) \<and>
         EvGoReceiveFromServer \<notin> set (fst (HandleConnection w s)) \<and>
         EvConnClose c \<in> set (fst (HandleConnection w s))"
proof -
  have hc: "HandleConnection w s =
           (atr @ ctr @ [EvWriteOK] @ close_serverConn w c, Returned (Some (Wrap err)))"
    using assms(3) by (simp add: HandleConnection_unfold [OF assms(1,2)])
  have s1: "filter is_OnSessionStart atr = []"
    using checkAccess_OnSessionStart [OF assms(1)] by simp
  have s2: "filter is_OnSessionStart ctr = []"
    using connect_no_OnSessionStart [of w s] assms(2) by simp
  have r1: "ev \<in> set atr \<Longrightarrow>
     ev \<noteq> OnSessionEnd \<and> ev \<noteq> EvGoReceiveFromClient \<and> ev \<noteq> EvGoReceiveFromServer" for ev
    using checkAccess_no_relay_event [of ev w s] assms(1) by simp
  have r2: "ev \<in> set ctr \<Longrightarrow>
     ev \<noteq> OnSessionEnd \<and> ev \<noteq> EvGoReceiveFromClient \<and> ev \<noteq> EvGoReceiveFromServer" for ev
    using connect_no_relay_event [of ev w s] assms(2) by simp
  note r3 = close_serverConn_no_relay_event [of _ w c]
  have "filter is_OnSessionStart (fst (HandleConnection w s)) = []"
    by (simp add: hc s1 s2 close_serverConn_no_OnSessionStart)
  moreover have "OnSessionEnd \<notin> set (fst (HandleConnection w s))"
    using r1 r2 r3 by (auto simp: hc)
  moreover have "EvGoReceiveFromClient \<notin> set (fst (HandleConnection w s))"
    using r1 r2 r3 by (auto simp: hc)
  moreover have "EvGoReceiveFromServer \<notin> set (fst (HandleConnection w s))"
    using r1 r2 r3 by (auto simp: hc)
  moreover have "EvConnClose c \<in> set (fst (HandleConnection w s))"
    by (simp add: hc close_serverConn_def)
  ultimately show ?thesis using hc by blast
qed

theorem failed_ready_reply_witness:
  "checkAccess broken_client_world sample_session =
     (fst (checkAccess broken_client_world sample_session), None) \<and>
   connect broken_client_world sample_session =
     (fst (connect broken_client_world sample_session), Inr (Conn 2)) \<and>
   WriteOK broken_client_world = Some (Err ''broken pipe'') \<and>
   snd (HandleConnection broken_client_world sample_session) =
     Returned (Some (Wrap (Err ''broken pipe''))) \<and>
   filter is_OnSessionStart (fst (HandleConnection broken_client_world sample_session)) = [] \<and>
   OnSessionEnd \<notin> set (fst (HandleConnection broken_client_world sample_session)) \<and>
   EvGoReceiveFromClient \<notin> set (fst (HandleConnection broken_client_world sample_session)) \<and>
   EvGoReceiveFromServer \<notin> set (fst (HandleConnection broken_client_world sample_session)) \<and>
   EvConnClose (Conn 2) \<in> set (fst (HandleConnection broken_client_world sample_session))"
proof -
  have a: "checkAccess broken_client_world sample_session =
     (fst (checkAccess broken_client_world sample_session), None)"
    by code_simp
  have c: "connect broken_client_world sample_session =
     (fst (connect broken_client_world sample_session), Inr (Conn 2))"
    by code_simp
  have o: "WriteOK broken_client_world = Some (Err ''broken pipe'')"
    by (simp add: broken_client_world_def sample_world_def)
  note t = failed_ready_reply [OF a c o]
  from t have r: "snd (HandleConnection broken_client_world sample_session) =
     Returned (Some (Wrap (Err ''broken pipe'')))"
    by simp
  from t r a c o show ?thesis by blast
qed

section \<open>The client-to-backend relay\<close>

lemma ParsePacket_Inr:
  "ParsePacket w i = Inr pkt \<Longrightarrow> client_read w i = Inr (Bytes pkt)"
  by (auto simp: ParsePacket_def split: sum.splits unit_kind.splits)

lemma server_writes_append: "server_writes (xs @ ys) = server_writes xs @ server_writes ys"
  by (induction xs rule: server_writes.induct) simp_all

lemma packet_switch_writes: "server_writes (fst (packet_switch pkt)) = []"
  by (cases pkt) (simp_all add: packet_switch_def)

lemma packet_switch_continue:
  "packet_switch pkt = (evs, False) \<Longrightarrow> \<not> is_ChangeUser pkt \<and> \<not> is_Quit pkt"
  by (cases pkt) (simp_all add: packet_switch_def)

lemma upt_Suc_shift: "i # [Suc i..<Suc i + n] = [i..<i + Suc n]"
  by (simp add: upt_rec)

lemma loop_forwards_prefix:
  assumes "receiveFromClient_loop w i tr = Some tr'"
  shows "\<exists>n. server_writes tr' = server_writes tr @ map (forwarded w) [i..<i + n] \<and>
             (\<forall>j. i \<le> j \<and> j < i + n \<longrightarrow>
                (\<exists>pkt. ParsePacket w j = Inr pkt \<and> \<not> is_ChangeUser pkt \<and> \<not> is_Quit pkt))"
  using assms
proof (rule receiveFromClient_loop.raw_induct [rotated 1, where P = "\<lambda>w i tr tr'.
     \<exists>n. server_writes tr' = server_writes tr @ map (forwarded w) [i..<i + n] \<and>
         (\<forall>j. i \<le> j \<and> j < i + n \<longrightarrow>
            (\<exists>pkt. ParsePacket w j = Inr pkt \<and> \<not> is_ChangeUser pkt \<and> \<not> is_Quit pkt))"],
    goal_cases)
  case (1 loop w i tr tr')
  show ?case
  proof (cases "ParsePacket w i")
    case (Inl err)
    with 1(2) have "server_writes tr' = server_writes tr"
      by (auto simp: server_writes_append split: if_splits)
    then show ?thesis by (intro exI [of _ 0]) auto
  next
    case (Inr pkt)
    obtain evs stop where sw: "packet_switch pkt = (evs, stop)"
      by (cases "packet_switch pkt") auto
    from packet_switch_writes [of pkt] sw have ne: "server_writes evs = []" by simp
    from Inr have rc: "forwarded w i = Bytes pkt"
      by (simp add: forwarded_def)
    show ?thesis
    proof (cases stop)
      case True
      with 1(2) Inr sw ne have "server_writes tr' = server_writes tr"
        by (auto simp: server_writes_append)
      then show ?thesis by (intro exI [of _ 0]) auto
    next
      case False
      with sw have "packet_switch pkt = (evs, False)" by simp
      from packet_switch_continue [OF this]
      have ok: "\<not> is_ChangeUser pkt \<and> \<not> is_Quit pkt" .
      show ?thesis
      proof (cases "server_write w i (Bytes pkt)")
        case (Some err)
        with 1(2) Inr sw False ne rc
        have "server_writes tr' = server_writes tr @ map (forwarded w) [i..<i + 1]"
          by (auto simp: server_writes_append)
        moreover have "\<forall>j. i \<le> j \<and> j < i + 1 \<longrightarrow>
                (\<exists>pkt. ParsePacket w j = Inr pkt \<and> \<not> is_ChangeUser pkt \<and> \<not> is_Quit pkt)"
          using Inr ok by (auto simp: le_less_Suc_eq)
        ultimately show ?thesis by blast
      next
        case None
        with 1(2) Inr sw False
        have "loop w (Suc i) (tr @ evs @ [EvWritePacketServer (Bytes pkt)]) = Some tr'"
          by simp
        from 1(1) [OF this] obtain n where
          n1: "server_writes tr' =
                 server_writes (tr @ evs @ [EvWritePacketServer (Bytes pkt)]) @
                 map (forwarded w) [Suc i..<Suc i + n]"
          and n2: "\<forall>j. Suc i \<le> j \<and> j < Suc i + n \<longrightarrow>
                (\<exists>pkt. ParsePacket w j = Inr pkt \<and> \<not> is_ChangeUser pkt \<and> \<not> is_Quit pkt)"
          by blast
        from n1 ne rc
        have "server_writes tr' =
                server_writes tr @ map (forwarded w) (i # [Suc i..<Suc i + n])"
          by (simp add: server_writes_append)
        then have "server_writes tr' = server_writes tr @ map (forwarded w) [i..<i + Suc n]"
          by (simp only: upt_Suc_shift)
        moreover have "\<forall>j. i \<le> j \<and> j < i + Suc n \<longrightarrow>
                (\<exists>pkt. ParsePacket w j = Inr pkt \<and> \<not> is_ChangeUser pkt \<and> \<not> is_Quit pkt)"
        proof (intro allI impI)
          fix j assume j: "i \<le> j \<and> j < i + Suc n"
          show "\<exists>pkt. ParsePacket w j = Inr pkt \<and> \<not> is_ChangeUser pkt \<and> \<not> is_Quit pkt"
          proof (cases "j = i")
            case True
            with Inr ok show ?thesis by blast
          next
            case False
            with j have "Suc i \<le> j \<and> j < Suc i + n" by arith
            with n2 show ?thesis by blast
          qed
        qed
        ultimately show ?thesis by blast
      qed
    qed
  qed
qed

lemma receiveFromClient_forwards_prefix:
  assumes "receiveFromClient w = Some tr'"
  shows "\<exists>n. server_writes tr' = map (forwarded w) [0..<n] \<and>
             (\<forall>j<n. \<exists>pkt. ParsePacket w j = Inr pkt \<and> \<not> is_ChangeUser pkt \<and> \<not> is_Quit pkt)"
proof -
  from assms obtain tr where l: "receiveFromClient_loop w 0 [] = Some tr"
    and t: "tr' = tr @ [EvLog Debug ''Stop receiving from client.'' [], EvChanClose]"
    by (auto simp: receiveFromClient_def)
  from loop_forwards_prefix [OF l] t show ?thesis
    by (auto simp: server_writes_append)
qed

lemma forwarded_received:
  "ParsePacket w j = Inr pkt \<Longrightarrow> forwarded w j = received w j"
  by (simp add: forwarded_def received_def ParsePacket_Inr)

lemma receiveFromClient_forwards_received:
  assumes "receiveFromClient w = Some tr'"
  shows "\<exists>n. server_writes tr' = map (received w) [0..<n]"
proof -
  from receiveFromClient_forwards_prefix [OF assms] obtain n where
    n1: "server_writes tr' = map (forwarded w) [0..<n]"
    and n2: "\<forall>j<n. \<exists>pkt. ParsePacket w j = Inr pkt \<and> \<not> is_ChangeUser pkt \<and> \<not> is_Quit pkt"
    by blast
  from n2 have "map (forwarded w) [0..<n] = map (received w) [0..<n]"
    by (auto intro!: map_cong dest: forwarded_received)
  with n1 show ?thesis by auto
qed

text \<open>
  C3. In the loop of \<open>receiveFromClient\<close>, at any iteration and after any calls \<open>tr\<close>:
  when the unit read decodes to a re-authentication request, the loop ends at once, having
  added only the warning to its calls (no write to the backend, nothing sent on the
  channel); when it decodes to a termination request, the loop ends at once, having added
  nothing. Over a whole run of the task, the byte strings written to the backend are those
  of the first \<open>n\<close> packets decoded, none of which is a re-authentication or a
  termination request.
\<close>

theorem reauth_and_quit_end_the_client_task:
  "(\<forall>b u. ParsePacket w i = Inr (ChangeUser b u) \<longrightarrow>
      receiveFromClient_loop w i tr =
        Some (tr @ [EvLog Warn ''Rejecting attempt to change user to %q for session %v.''
                      [FStr u, FSession]])) \<and>
   (\<forall>b. ParsePacket w i = Inr (Quit b) \<longrightarrow> receiveFromClient_loop w i tr = Some tr) \<and>
   (\<forall>tr'. receiveFromClient w = Some tr' \<longrightarrow>
      (\<exists>n. server_writes tr' = map (forwarded w) [0..<n] \<and>
           (\<forall>j<n. \<exists>pkt. ParsePacket w j = Inr pkt \<and> \<not> is_ChangeUser pkt \<and> \<not> is_Quit pkt)))"
proof (intro conjI allI impI)
  fix b u
  assume "ParsePacket w i = Inr (ChangeUser b u)"
  then show "receiveFromClient_loop w i tr =
        Some (tr @ [EvLog Warn ''Rejecting attempt to change user to %q for session %v.''
                      [FStr u, FSession]])"
    by (subst receiveFromClient_loop.simps) (simp add: packet_switch_def)
next
  fix b
  assume "ParsePacket w i = Inr (Quit b)"
  then show "receiveFromClient_loop w i tr = Some tr"
    by (subst receiveFromClient_loop.simps) (simp add: packet_switch_def)
next
  fix tr'
  assume "receiveFromClient w = Some tr'"
  then show "\<exists>n. server_writes tr' = map (forwarded w) [0..<n] \<and>
           (\<forall>j<n. \<exists>pkt. ParsePacket w j = Inr pkt \<and> \<not> is_ChangeUser pkt \<and> \<not> is_Quit pkt)"
    by (rule receiveFromClient_forwards_prefix)
qed

theorem reauth_and_quit_end_the_client_task_witness:
  "ParsePacket reauth_world 1 = Inr (ChangeUser [17, 98] ''bob'') \<and>
   receiveFromClient_loop reauth_world 1 [OnQuery ''select 1'', EvWritePacketServer [3, 115]] =
     Some [OnQuery ''select 1'', EvWritePacketServer [3, 115],
           EvLog Warn ''Rejecting attempt to change user to %q for session %v.''
             [FStr ''bob'', FSession]] \<and>
   ParsePacket sample_world 2 = Inr (Quit [1]) \<and>
   receiveFromClient_loop sample_world 2 [] = Some [] \<and>
   receiveFromClient reauth_world =
     Some [OnQuery ''select 1'', EvWritePacketServer [3, 115],
           EvLog Warn ''Rejecting attempt to change user to %q for session %v.''
             [FStr ''bob'', FSession],
           EvLog Debug ''Stop receiving from client.'' [], EvChanClose] \<and>
   (\<exists>n. server_writes
           [OnQuery ''select 1'', EvWritePacketServer [3, 115],
            EvLog Warn ''Rejecting attempt to change user to %q for session %v.''
              [FStr ''bob'', FSession],
            EvLog Debug ''Stop receiving from client.'' [], EvChanClose] =
         map (forwarded reauth_world) [0..<n] \<and>
        (\<forall>j<n. \<exists>pkt. ParsePacket reauth_world j = Inr pkt \<and>
                      \<not> is_ChangeUser pkt \<and> \<not> is_Quit pkt))"
proof -
  have p1: "ParsePacket reauth_world 1 = Inr (ChangeUser [17, 98] ''bob'')"
    by code_simp
  have p2: "ParsePacket sample_world 2 = Inr (Quit [1])"
    by code_simp
  have r: "receiveFromClient reauth_world =
     Some [OnQuery ''select 1'', EvWritePacketServer [3, 115],
           EvLog Warn ''Rejecting attempt to change user to %q for session %v.''
             [FStr ''bob'', FSession],
           EvLog Debug ''Stop receiving from client.'' [], EvChanClose]"
    by code_simp
  note t1 = reauth_and_quit_end_the_client_task
              [of reauth_world 1 "[OnQuery ''select 1'', EvWritePacketServer [3, 115]]"]
  note t2 = reauth_and_quit_end_the_client_task [of sample_world 2 "[]"]
  from t1 p1 have a: "receiveFromClient_loop reauth_world 1
       [OnQuery ''select 1'', EvWritePacketServer [3, 115]] =
     Some ([OnQuery ''select 1'', EvWritePacketServer [3, 115]] @
           [EvLog Warn ''Rejecting attempt to change user to %q for session %v.''
              [FStr ''bob'', FSession]])"
    by blast
  from t2 p2 have b: "receiveFromClient_loop sample_world 2 [] = Some []"
    by blast
  from t1 r have c: "\<exists>n. server_writes
           [OnQuery ''select 1'', EvWritePacketServer [3, 115],
            EvLog Warn ''Rejecting attempt to change user to %q for session %v.''
              [FStr ''bob'', FSession],
            EvLog Debug ''Stop receiving from client.'' [], EvChanClose] =
         map (forwarded reauth_world) [0..<n] \<and>
        (\<forall>j<n. \<exists>pkt. ParsePacket reauth_world j = Inr pkt \<and>
                      \<not> is_ChangeUser pkt \<and> \<not> is_Quit pkt)"
    by blast
  from p1 p2 r a b c show ?thesis by simp
qed

text \<open>
  C8. In the loop of \<open>receiveFromClient\<close>, at any iteration and after any calls \<open>tr\<close>:
  when the unit read has the bytes \<open>raw\<close> and decodes to a statement execution with the
  text \<open>q\<close>, the loop calls \<open>OnQuery\<close> with \<open>q\<close> and then passes exactly \<open>raw\<close> to
  \<open>WritePacket\<close> on the backend connection, and goes on with the next unit unless that
  write fails. Over a whole run of the task, the byte strings written to the backend are,
  in order, the bytes of the first \<open>n\<close> units read.
\<close>

theorem statement_forwarded_unchanged:
  "(\<forall>raw q. client_read w i = Inr raw \<and> codec_decode w raw = Inr (KStatement q) \<longrightarrow>
      receiveFromClient_loop w i tr =
        (case server_write w i raw of
           Some err \<Rightarrow>
             Some (tr @ [OnQuery q, EvWritePacketServer raw,
                         EvLog Error_level ''Failed to write server packet.'' [FErr err],
                         EvChanSend err])
         | None \<Rightarrow>
             receiveFromClient_loop w (Suc i) (tr @ [OnQuery q, EvWritePacketServer raw]))) \<and>
   (\<forall>tr'. receiveFromClient w = Some tr' \<longrightarrow>
      (\<exists>n. server_writes tr' = map (received w) [0..<n]))"
proof (intro conjI allI impI)
  fix raw q
  assume "client_read w i = Inr raw \<and> codec_decode w raw = Inr (KStatement q)"
  then have "ParsePacket w i = Inr (Query raw q)"
    by (simp add: ParsePacket_def)
  then show "receiveFromClient_loop w i tr =
        (case server_write w i raw of
           Some err \<Rightarrow>
             Some (tr @ [OnQuery q, EvWritePacketServer raw,
                         EvLog Error_level ''Failed to write server packet.'' [FErr err],
                         EvChanSend err])
         | None \<Rightarrow>
             receiveFromClient_loop w (Suc i) (tr @ [OnQuery q, EvWritePacketServer raw]))"
    by (subst receiveFromClient_loop.simps) (simp add: packet_switch_def split: option.split)
next
  fix tr'
  assume "receiveFromClient w = Some tr'"
  then show "\<exists>n. server_writes tr' = map (received w) [0..<n]"
    by (rule receiveFromClient_forwards_received)
qed

theorem statement_forwarded_unchanged_witness:
  "client_read sample_world 0 = Inr [3, 115] \<and>
   codec_decode sample_world [3, 115] = Inr (KStatement ''select 1'') \<and>
   server_write sample_world 0 [3, 115] = None \<and>
   receiveFromClient_loop sample_world 0 [] =
     receiveFromClient_loop sample_world (Suc 0)
       [OnQuery ''select 1'', EvWritePacketServer [3, 115]] \<and>
   receiveFromClient sample_world =
     Some [OnQuery ''select 1'', EvWritePacketServer [3, 115], EvWritePacketServer [14],
           EvLog Debug ''Stop receiving from client.'' [], EvChanClose] \<and>
   (\<exists>n. server_writes
           [OnQuery ''select 1'', EvWritePacketServer [3, 115], EvWritePacketServer [14],
            EvLog Debug ''Stop receiving from client.'' [], EvChanClose] =
         map (received sample_world) [0..<n])"
proof -
  have r0: "client_read sample_world 0 = Inr [3, 115]"
    by code_simp
  have d0: "codec_decode sample_world [3, 115] = Inr (KStatement ''select 1'')"
    by code_simp
  have w0: "server_write sample_world 0 [3, 115] = None"
    by (simp add: sample_world_def)
  have r: "receiveFromClient sample_world =
     Some [OnQuery ''select 1'', EvWritePacketServer [3, 115], EvWritePacketServer [14],
           EvLog Debug ''Stop receiving from client.'' [], EvChanClose]"
    by code_simp
  note t = statement_forwarded_unchanged [of sample_world 0 "[]"]
  from t r0 d0 have "receiveFromClient_loop sample_world 0 [] =
        (case server_write sample_world 0 [3, 115] of
           Some err \<Rightarrow>
             Some ([] @ [OnQuery ''select 1'', EvWritePacketServer [3, 115],
                         EvLog Error_level ''Failed to write server packet.'' [FErr err],
                         EvChanSend err])
         | None \<Rightarrow>
             receiveFromClient_loop sample_world (Suc 0)
               ([] @ [OnQuery ''select 1'', EvWritePacketServer [3, 115]]))"
    by blast
  with w0 have a: "receiveFromClient_loop sample_world 0 [] =
     receiveFromClient_loop sample_world (Suc 0)
       [OnQuery ''select 1'', EvWritePacketServer [3, 115]]"
    by simp
  from t r have c: "\<exists>n. server_writes
           [OnQuery ''select 1'', EvWritePacketServer [3, 115], EvWritePacketServer [14],
            EvLog Debug ''Stop receiving from client.'' [], EvChanClose] =
         map (received sample_world) [0..<n]"
    by blast
  from r0 d0 w0 a r c show ?thesis by blast
qed

section \<open>The lease of the Cloud SQL branch\<close>


lemma connect_credentials_cloudsql_first:
  assumes "\<not> IsRDS (Database s)" and "IsCloudSQL (Database s)"
    and "connect_credentials w s cfg = (tr, deferred, r)"
  shows "\<exists>rest. tr = EvAcquireSemaphoreWithRetry (DatabaseConnectTimeout w)
                        (makeAcquireSemaphoreConfig w s) # rest"
  using assms
  by (auto simp: connect_credentials_def Let_def split: prod.splits sum.splits if_splits)

lemma connect_cloudsql_acquires:
  assumes "\<not> IsRDS (Database s)" and "IsCloudSQL (Database s)"
    and "GetTLSConfig w = Inr cfg"
  shows "\<exists>rest. fst (connect w s) =
           EvGetTLSConfig #
           EvAcquireSemaphoreWithRetry (DatabaseConnectTimeout w)
             (makeAcquireSemaphoreConfig w s) # rest"
proof -
  obtain tr deferred r where c: "connect_credentials w s cfg = (tr, deferred, r)"
    by (cases "connect_credentials w s cfg") auto
  from connect_credentials_cloudsql_first [OF assms(1,2) c] obtain rest where
    tr: "tr = EvAcquireSemaphoreWithRetry (DatabaseConnectTimeout w)
                (makeAcquireSemaphoreConfig w s) # rest"
    by blast
  show ?thesis
  proof (cases r)
    case (Inl err)
    with assms(3) c tr show ?thesis by (simp add: connect_def)
  next
    case (Inr upo)
    with assms(3) c tr show ?thesis
      by (cases upo) (simp add: connect_def split: prod.split)
  qed
qed

text \<open>
  C4 (as amended). The lease request built for a session has the kind "gcp-mysql-token",
  the name made of the database's name, a hyphen and the database user, at most one lease
  and an expiry one minute after the clock's time; the retry policy has a step of one
  second and a maximum of one second. For a Cloud SQL session (not also RDS) whose TLS
  configuration was obtained, acquiring the lease with this request, under a context
  limited by the database connection timeout, is the next call \<open>connect\<close> makes.
\<close>

theorem lease_request_of_cloudsql_session:
  "makeAcquireSemaphoreConfig w s =
     \<lparr>Request =
        \<lparr>SemaphoreKind = ''gcp-mysql-token'',
         SemaphoreName = GetName (Database s) @ ''-'' @ DatabaseUser s,
         MaxLeases = 1,
         Expires = Clock_Now w + 60 * 1000000000\<rparr>,
      Retry = \<lparr>Step = 1000000000, Max = 1000000000\<rparr>\<rparr> \<and>
   (\<forall>cfg. \<not> IsRDS (Database s) \<and> IsCloudSQL (Database s) \<and> GetTLSConfig w = Inr cfg \<longrightarrow>
      (\<exists>rest. fst (connect w s) =
         EvGetTLSConfig #
         EvAcquireSemaphoreWithRetry (DatabaseConnectTimeout w)
           (makeAcquireSemaphoreConfig w s) # rest))"
proof (intro conjI allI impI)
  show "makeAcquireSemaphoreConfig w s =
     \<lparr>Request =
        \<lparr>SemaphoreKind = ''gcp-mysql-token'',
         SemaphoreName = GetName (Database s) @ ''-'' @ DatabaseUser s,
         MaxLeases = 1,
         Expires = Clock_Now w + 60 * 1000000000\<rparr>,
      Retry = \<lparr>Step = 1000000000, Max = 1000000000\<rparr>\<rparr>"
    by (simp add: makeAcquireSemaphoreConfig_def Minute_def Second_def)
next
  fix cfg
  assume "\<not> IsRDS (Database s) \<and> IsCloudSQL (Database s) \<and> GetTLSConfig w = Inr cfg"
  then show "\<exists>rest. fst (connect w s) =
         EvGetTLSConfig #
         EvAcquireSemaphoreWithRetry (DatabaseConnectTimeout w)
           (makeAcquireSemaphoreConfig w s) # rest"
    using connect_cloudsql_acquires [of s w cfg] by blast
qed

theorem lease_request_of_cloudsql_session_witness:
  "\<not> IsRDS (Database sample_session) \<and> IsCloudSQL (Database sample_session) \<and>
   GetTLSConfig sample_world = Inr (TLSConfig 0) \<and>
   (\<exists>rest. fst (connect sample_world sample_session) =
      EvGetTLSConfig #
      EvAcquireSemaphoreWithRetry 60000000000
        \<lparr>Request =
           \<lparr>SemaphoreKind = ''gcp-mysql-token'', SemaphoreName = ''orders-alice'',
            MaxLeases = 1, Expires = 60000001000\<rparr>,
         Retry = \<lparr>Step = 1000000000, Max = 1000000000\<rparr>\<rparr> # rest)"
proof -
  have h: "\<not> IsRDS (Database sample_session) \<and> IsCloudSQL (Database sample_session) \<and>
     GetTLSConfig sample_world = Inr (TLSConfig 0)"
    by (simp add: sample_session_def sample_database_def sample_world_def)
  have t: "DatabaseConnectTimeout sample_world = 60000000000"
    by (simp add: sample_world_def Second_def)
  have m: "makeAcquireSemaphoreConfig sample_world sample_session =
        \<lparr>Request =
           \<lparr>SemaphoreKind = ''gcp-mysql-token'', SemaphoreName = ''orders-alice'',
            MaxLeases = 1, Expires = 60000001000\<rparr>,
         Retry = \<lparr>Step = 1000000000, Max = 1000000000\<rparr>\<rparr>"
    using lease_request_of_cloudsql_session [of sample_world sample_session]
    by (simp add: sample_session_def sample_database_def sample_world_def)
  from lease_request_of_cloudsql_session [of sample_world sample_session] h
  have "\<exists>rest. fst (connect sample_world sample_session) =
      EvGetTLSConfig #
      EvAcquireSemaphoreWithRetry (DatabaseConnectTimeout sample_world)
        (makeAcquireSemaphoreConfig sample_world sample_session) # rest"
    by blast
  with h show ?thesis by (simp only: t m) blast
qed

text \<open>
  C4 as stated gives the kind of the lease as "provider-token"; the source's constant is
  another string.
\<close>

theorem lease_kind_counterexample:
  "SemaphoreKind (Request (makeAcquireSemaphoreConfig sample_world sample_session)) \<noteq>
     ''provider-token''"
  by (simp add: makeAcquireSemaphoreConfig_def)

section \<open>Failure of the outgoing connection\<close>

lemma release_lease_other:
  "EvClientConnect u n p d opt \<notin> set (release_lease w l)"
  "EvTLSDial u c \<notin> set (release_lease w l)"
  by (simp_all add: release_lease_def split: option.split)

lemma cloudsql_tls_uri_other:
  "EvClientConnect u n p d opt \<notin> set (fst (cloudsql_tls_uri w db))"
  "EvTLSDial u c \<notin> set (fst (cloudsql_tls_uri w db))"
  by (simp_all add: cloudsql_tls_uri_def Let_def split: sum.split prod.split)

lemma connect_credentials_no_ClientConnect:
  assumes "connect_credentials w s cfg = (tr, deferred, r)"
  shows "EvClientConnect u n p d opt \<notin> set tr \<and> EvClientConnect u n p d opt \<notin> set deferred"
proof -
  have "ev \<in> set tr \<or> ev \<in> set deferred \<Longrightarrow> ev \<noteq> EvClientConnect u n p d opt" for ev
    using assms release_lease_other(1) [of u n p d opt w]
      cloudsql_tls_uri_other(1) [of u n p d opt w "Database s"]
    by (auto simp: connect_credentials_def Let_def split: sum.splits if_splits prod.splits)
  then show ?thesis by blast
qed

lemma connect_dial_not_RDS:
  assumes "\<not> IsRDS (Database s)"
  shows "connect_dial w s user password opt =
           ([EvClientConnect (GetURI (Database s)) user password (DatabaseName s) opt],
            (case client_Connect w (GetURI (Database s)) user password (DatabaseName s) opt of
               Inl err \<Rightarrow> Inl (Wrap err)
             | Inr c \<Rightarrow> Inr c))"
  using assms by (simp add: connect_dial_def Let_def split: sum.split)

lemma connect_not_RDS_wraps:
  assumes "\<not> IsRDS (Database s)"
    and "EvClientConnect u n p d opt \<in> set (fst (connect w s))"
    and "client_Connect w u n p d opt = Inl err"
  shows "snd (connect w s) = Inl (Wrap err)"
proof (cases "GetTLSConfig w")
  case (Inl e)
  with assms(2) show ?thesis by (simp add: connect_def)
next
  case (Inr cfg)
  obtain tr deferred r where c: "connect_credentials w s cfg = (tr, deferred, r)"
    by (cases "connect_credentials w s cfg") auto
  note n = connect_credentials_no_ClientConnect [OF c, of u n p d opt]
  show ?thesis
  proof (cases r)
    case (Inl e)
    with Inr c n assms(2) show ?thesis by (simp add: connect_def)
  next
    case (Inr upo)
    obtain user password opt' where upo: "upo = (user, password, opt')" by (cases upo) auto
    from \<open>GetTLSConfig w = Inr cfg\<close> c Inr upo
    have cn: "connect w s =
                (EvGetTLSConfig # tr @ fst (connect_dial w s user password opt') @ deferred,
                 snd (connect_dial w s user password opt'))"
      by (simp add: connect_def split: prod.split)
    with n assms(2) have
      "EvClientConnect u n p d opt \<in> set (fst (connect_dial w s user password opt'))"
      by auto
    then have "u = GetURI (Database s) \<and> n = user \<and> p = password \<and>
               d = DatabaseName s \<and> opt = opt'"
      by (simp add: connect_dial_not_RDS [OF assms(1)])
    with assms(3) cn show ?thesis
      by (simp add: connect_dial_not_RDS [OF assms(1)])
  qed
qed

lemma connect_RDS:
  assumes "IsRDS (Database s)" and "GetTLSConfig w = Inr cfg"
    and "GetRDSAuthToken w = Inr token"
  shows "connect w s =
           (EvGetTLSConfig # EvGetRDSAuthToken #
            fst (connect_dial w s (DatabaseUser s) token (SetTLSConfig cfg)),
            snd (connect_dial w s (DatabaseUser s) token (SetTLSConfig cfg)))"
  using assms by (simp add: connect_def connect_credentials_def Let_def split: prod.split)

lemma iam_message_names_user:
  "sublist (fmt_q w (DatabaseUser s)) (iam_message w s err)"
  unfolding sublist_def iam_message_def
  by (intro exI [of _ "''Could not connect to database:'' @ nl @ nl @
     ''  '' @ Error (ConvertError w err) @ nl @ nl @
     ''Make sure that IAM auth is enabled for MySQL user ''"]
     exI [of _ "'' and Teleport database'' @ nl @
     ''agent'' @ apostrophe @ ''s IAM policy has '' @ dq @ ''rds-connect'' @ dq @
     '' permissions (note that IAM changes may'' @ nl @
     ''take a few minutes to propagate):'' @ nl @ nl @
     GetIAMPolicy (Database s) @ nl"]) simp

lemma iam_message_has_policy:
  "sublist (GetIAMPolicy (Database s)) (iam_message w s err)"
  unfolding sublist_def iam_message_def
  by (intro exI [of _ "''Could not connect to database:'' @ nl @ nl @
     ''  '' @ Error (ConvertError w err) @ nl @ nl @
     ''Make sure that IAM auth is enabled for MySQL user '' @ fmt_q w (DatabaseUser s) @
     '' and Teleport database'' @ nl @
     ''agent'' @ apostrophe @ ''s IAM policy has '' @ dq @ ''rds-connect'' @ dq @
     '' permissions (note that IAM changes may'' @ nl @
     ''take a few minutes to propagate):'' @ nl @ nl"]
     exI [of _ nl]) simp

text \<open>
  C6. For an RDS session whose TLS configuration and authentication token were obtained
  and whose outgoing connection fails with an error that \<open>ConvertError\<close> turns into an
  access-denied error, \<open>connect\<close> returns an access-denied error whose message contains
  the quoted database user and the database's IAM policy. For a session that is not RDS,
  a failure of the outgoing connection is returned wrapped, whatever its kind.
\<close>

theorem rds_access_denied_is_rewritten:
  "(\<forall>cfg token err.
      IsRDS (Database s) \<and> GetTLSConfig w = Inr cfg \<and> GetRDSAuthToken w = Inr token \<and>
      client_Connect w (GetURI (Database s)) (DatabaseUser s) token (DatabaseName s)
        (SetTLSConfig cfg) = Inl err \<and>
      IsAccessDenied (ConvertError w err) \<longrightarrow>
        snd (connect w s) = Inl (AccessDenied (iam_message w s err)) \<and>
        sublist (fmt_q w (DatabaseUser s)) (iam_message w s err) \<and>
        sublist (GetIAMPolicy (Database s)) (iam_message w s err)) \<and>
   (\<forall>u n p d opt err.
      \<not> IsRDS (Database s) \<and> EvClientConnect u n p d opt \<in> set (fst (connect w s)) \<and>
      client_Connect w u n p d opt = Inl err \<longrightarrow>
        snd (connect w s) = Inl (Wrap err))"
proof (intro conjI allI impI)
  fix cfg token err
  assume h: "IsRDS (Database s) \<and> GetTLSConfig w = Inr cfg \<and> GetRDSAuthToken w = Inr token \<and>
      client_Connect w (GetURI (Database s)) (DatabaseUser s) token (DatabaseName s)
        (SetTLSConfig cfg) = Inl err \<and>
      IsAccessDenied (ConvertError w err)"
  then have "connect w s =
           (EvGetTLSConfig # EvGetRDSAuthToken #
            fst (connect_dial w s (DatabaseUser s) token (SetTLSConfig cfg)),
            snd (connect_dial w s (DatabaseUser s) token (SetTLSConfig cfg)))"
    using connect_RDS [of s w cfg token] by blast
  with h show "snd (connect w s) = Inl (AccessDenied (iam_message w s err))"
    by (simp add: connect_dial_def Let_def)
  show "sublist (fmt_q w (DatabaseUser s)) (iam_message w s err)"
    by (rule iam_message_names_user)
  show "sublist (GetIAMPolicy (Database s)) (iam_message w s err)"
    by (rule iam_message_has_policy)
next
  fix u n p d opt err
  assume "\<not> IsRDS (Database s) \<and> EvClientConnect u n p d opt \<in> set (fst (connect w s)) \<and>
      client_Connect w u n p d opt = Inl err"
  then show "snd (connect w s) = Inl (Wrap err)"
    using connect_not_RDS_wraps [of s u n p d opt w err] by blast
qed

theorem rds_access_denied_is_rewritten_witness:
  "IsRDS (Database rds_session) \<and>
   GetTLSConfig rds_denied_world = Inr (TLSConfig 0) \<and>
   GetRDSAuthToken rds_denied_world = Inr ''rds-token'' \<and>
   client_Connect rds_denied_world (GetURI (Database rds_session)) (DatabaseUser rds_session)
     ''rds-token'' (DatabaseName rds_session) (SetTLSConfig (TLSConfig 0)) =
     Inl (AccessDenied ''Access denied for user'') \<and>
   IsAccessDenied (ConvertError rds_denied_world (AccessDenied ''Access denied for user'')) \<and>
   snd (connect rds_denied_world rds_session) =
     Inl (AccessDenied
            (iam_message rds_denied_world rds_session (AccessDenied ''Access denied for user''))) \<and>
   sublist (fmt_q rds_denied_world ''alice'')
     (iam_message rds_denied_world rds_session (AccessDenied ''Access denied for user'')) \<and>
   sublist ''policy-document''
     (iam_message rds_denied_world rds_session (AccessDenied ''Access denied for user'')) \<and>
   \<not> IsRDS (Database azure_session) \<and>
   EvClientConnect ''db.example.com:3306'' ''alice@my-server'' ''azure-token'' ''sales''
     (SetTLSConfig (TLSConfig 0)) \<in> set (fst (connect rds_denied_world azure_session)) \<and>
   client_Connect rds_denied_world ''db.example.com:3306'' ''alice@my-server'' ''azure-token''
     ''sales'' (SetTLSConfig (TLSConfig 0)) = Inl (AccessDenied ''Access denied for user'') \<and>
   snd (connect rds_denied_world azure_session) =
     Inl (Wrap (AccessDenied ''Access denied for user''))"
proof -
  have h1: "IsRDS (Database rds_session) \<and>
     GetTLSConfig rds_denied_world = Inr (TLSConfig 0) \<and>
     GetRDSAuthToken rds_denied_world = Inr ''rds-token'' \<and>
     client_Connect rds_denied_world (GetURI (Database rds_session)) (DatabaseUser rds_session)
       ''rds-token'' (DatabaseName rds_session) (SetTLSConfig (TLSConfig 0)) =
       Inl (AccessDenied ''Access denied for user'') \<and>
     IsAccessDenied (ConvertError rds_denied_world (AccessDenied ''Access denied for user''))"
    by (simp add: rds_session_def sample_session_def sample_database_def
        rds_denied_world_def sample_world_def)
  have u: "DatabaseUser rds_session = ''alice''"
    by (simp add: rds_session_def sample_session_def)
  have q: "GetIAMPolicy (Database rds_session) = ''policy-document''"
    by (simp add: rds_session_def sample_session_def sample_database_def)
  have h2: "\<not> IsRDS (Database azure_session)"
    by (simp add: azure_session_def sample_session_def sample_database_def)
  have h3: "EvClientConnect ''db.example.com:3306'' ''alice@my-server'' ''azure-token'' ''sales''
     (SetTLSConfig (TLSConfig 0)) \<in> set (fst (connect rds_denied_world azure_session))"
    by code_simp
  have h4: "client_Connect rds_denied_world ''db.example.com:3306'' ''alice@my-server''
     ''azure-token'' ''sales'' (SetTLSConfig (TLSConfig 0)) =
     Inl (AccessDenied ''Access denied for user'')"
    by (simp add: rds_denied_world_def sample_world_def)
  note t1 = rds_access_denied_is_rewritten [of rds_session rds_denied_world]
  note t2 = rds_access_denied_is_rewritten [of azure_session rds_denied_world]
  from t1 h1 have a: "snd (connect rds_denied_world rds_session) =
     Inl (AccessDenied
            (iam_message rds_denied_world rds_session (AccessDenied ''Access denied for user''))) \<and>
     sublist (fmt_q rds_denied_world (DatabaseUser rds_session))
       (iam_message rds_denied_world rds_session (AccessDenied ''Access denied for user'')) \<and>
     sublist (GetIAMPolicy (Database rds_session))
       (iam_message rds_denied_world rds_session (AccessDenied ''Access denied for user''))"
    by blast
  from t2 h2 h3 h4 have b: "snd (connect rds_denied_world azure_session) =
     Inl (Wrap (AccessDenied ''Access denied for user''))"
    by blast
  from h1 h2 h3 h4 a b show ?thesis by (simp only: u q) blast
qed

section \<open>The TLS side channel of the Cloud SQL branch\<close>






end
